theory Spec2Isabelle
  imports Complex_Main
begin

section \<open>Python values, errors and tuples\<close>

text \<open>
  The two Python modules verified here are
  \<^verbatim>\<open>docker/single_node_batch/devito_isotropic/CloudExtras.py\<close> and
  \<^verbatim>\<open>docker/multi_node_batch/devito_isotropic/PyModel.py\<close>.

  Conventions of the embedding.
  \<^item> Python floats and NumPy floating scalars are idealised as real numbers: every
    arithmetic operation is exact and the casts \<^verbatim>\<open>dtype(...)\<close> of coordinates are the
    identity. In \<^verbatim>\<open>critical_dt\<close>, whose result is a rounded number, the cast
    \<^verbatim>\<open>self.dtype\<close> is a parameter. Where the floating-point result would be \<^verbatim>\<open>inf\<close>
    or \<^verbatim>\<open>nan\<close> (a division by zero, the square root of a negative number) the model
    returns an error instead of a number.
  \<^item> Python integers are \<^typ>\<open>int\<close>; tuples and lists are HOL lists.
  \<^item> A raised exception is the left injection of a sum type. \<open>NonFinite\<close> is not an
    exception: it marks a computation whose floating-point value is \<^verbatim>\<open>inf\<close> or
    \<^verbatim>\<open>nan\<close> and so lies outside the idealisation.
\<close>

datatype py_error =
    IndexError | ValueError | OverflowError | ZeroDivisionError
  | UnboundLocalError | AttributeError | AssertionError | NonFinite

type_synonym 'a result = "py_error + 'a"

definition bind_result :: "'a result \<Rightarrow> ('a \<Rightarrow> 'b result) \<Rightarrow> 'b result" where
  "bind_result r f = (case r of Inl e \<Rightarrow> Inl e | Inr x \<Rightarrow> f x)"

definition succeeds :: "'a result \<Rightarrow> bool" where
  "succeeds r = (case r of Inl e \<Rightarrow> False | Inr x \<Rightarrow> True)"

fun sequence :: "'a result list \<Rightarrow> 'a list result" where
  "sequence [] = Inr []"
| "sequence (r # rs) = bind_result r (\<lambda>x. bind_result (sequence rs) (\<lambda>xs. Inr (x # xs)))"

text \<open>\<^verbatim>\<open>t[i]\<close> on a tuple or list: a negative index counts from the end.\<close>

definition getitem :: "'a list \<Rightarrow> int \<Rightarrow> 'a result" where
  "getitem xs i =
     (if 0 \<le> i \<and> i < int (length xs) then Inr (xs ! nat i)
      else if i < 0 \<and> - int (length xs) \<le> i then Inr (xs ! nat (int (length xs) + i))
      else Inl IndexError)"

text \<open>\<^verbatim>\<open>int(x)\<close> on a float truncates toward zero.\<close>

definition py_int :: "real \<Rightarrow> int" where
  "py_int x = (if 0 \<le> x then \<lfloor>x\<rfloor> else \<lceil>x\<rceil>)"

text \<open>
  \<^verbatim>\<open>int(x / d)\<close>. With \<^verbatim>\<open>d == 0\<close> the quotient of Python floats raises
  ZeroDivisionError (\<open>py_int_quot\<close>: the origins and the spacing that
  \<^verbatim>\<open>extent_gradient\<close> receives are tuples of Python floats). When \<open>x\<close> is a NumPy
  scalar, as the results of \<^verbatim>\<open>np.min\<close> and \<^verbatim>\<open>np.max\<close> are, the quotient is \<^verbatim>\<open>inf\<close>
  or, for \<^verbatim>\<open>x == 0\<close>, \<^verbatim>\<open>nan\<close>, and \<^verbatim>\<open>int\<close> raises OverflowError or ValueError
  (\<open>np_int_quot\<close>).
\<close>

definition py_int_quot :: "real \<Rightarrow> real \<Rightarrow> int result" where
  "py_int_quot x d = (if d = 0 then Inl ZeroDivisionError else Inr (py_int (x / d)))"

definition np_int_quot :: "real \<Rightarrow> real \<Rightarrow> int result" where
  "np_int_quot x d =
     (if d = 0 then (if x = 0 then Inl ValueError else Inl OverflowError)
      else Inr (py_int (x / d)))"

text \<open>\<^verbatim>\<open>np.min\<close> and \<^verbatim>\<open>np.max\<close> of a sequence: an empty one raises ValueError.\<close>

definition np_min :: "real list \<Rightarrow> real result" where
  "np_min xs = (if xs = [] then Inl ValueError else Inr (Min (set xs)))"

definition np_max :: "real list \<Rightarrow> real result" where
  "np_max xs = (if xs = [] then Inl ValueError else Inr (Max (set xs)))"

section \<open>NumPy arrays\<close>

text \<open>
  An array is its shape and its elements in row-major (C) order. \<open>ravel\<close> is the flat
  position of a multi-index, \<open>unravel\<close> its inverse, \<open>item a idx\<close> is \<^verbatim>\<open>a[idx]\<close>
  for an index inside the shape, and \<open>tabulate sh f\<close> is the array of shape \<open>sh\<close> whose
  element at \<open>idx\<close> is \<open>f idx\<close>.
\<close>

record 'a ndarray =
  shape :: "nat list"
  flat :: "'a list"

fun ravel :: "nat list \<Rightarrow> nat list \<Rightarrow> nat" where
  "ravel (n # ns) (i # js) = i * prod_list ns + ravel ns js"
| "ravel _ _ = 0"

fun unravel :: "nat list \<Rightarrow> nat \<Rightarrow> nat list" where
  "unravel [] p = []"
| "unravel (n # ns) p = (p div prod_list ns) # unravel ns (p mod prod_list ns)"

definition in_bounds :: "nat list \<Rightarrow> nat list \<Rightarrow> bool" where
  "in_bounds sh idx = list_all2 (<) idx sh"

definition item :: "'a ndarray \<Rightarrow> nat list \<Rightarrow> 'a" where
  "item a idx = flat a ! ravel (shape a) idx"

definition tabulate :: "nat list \<Rightarrow> (nat list \<Rightarrow> 'a) \<Rightarrow> 'a ndarray" where
  "tabulate sh f = \<lparr>shape = sh, flat = map (\<lambda>p. f (unravel sh p)) [0..<prod_list sh]\<rparr>"

text \<open>\<^verbatim>\<open>np.zeros(shape)\<close>, \<^verbatim>\<open>np.ones(shape)\<close>: a negative dimension raises ValueError.\<close>

definition const_array :: "nat list \<Rightarrow> 'a \<Rightarrow> 'a ndarray" where
  "const_array sh v = \<lparr>shape = sh, flat = replicate (prod_list sh) v\<rparr>"

definition np_full :: "int list \<Rightarrow> 'a \<Rightarrow> 'a ndarray result" where
  "np_full dims v =
     (if list_ex (\<lambda>d. d < 0) dims then Inl ValueError
      else Inr (const_array (map nat dims) v))"

definition np_zeros :: "int list \<Rightarrow> ('a::zero) ndarray result" where
  "np_zeros dims = np_full dims 0"

definition np_ones :: "int list \<Rightarrow> ('a::one) ndarray result" where
  "np_ones dims = np_full dims 1"

text \<open>
  Basic slicing. \<open>slice_indices start stop n\<close> are the bounds Python gives
  \<^verbatim>\<open>start:stop\<close> on an axis of length \<open>n\<close>: a negative bound counts from the end, and
  both are clipped to the axis. \<open>a[key]\<close> with fewer slices than axes leaves the
  remaining axes whole; with more it raises IndexError.
\<close>

datatype py_slice = Slice int int | Colon

definition slice_indices :: "int \<Rightarrow> int \<Rightarrow> nat \<Rightarrow> nat \<times> nat" where
  "slice_indices start stop n =
     (let lo = (if start < 0 then max 0 (start + int n) else min start (int n));
          hi = (if stop < 0 then max 0 (stop + int n) else min stop (int n))
      in (nat lo, nat (max lo hi)))"

text \<open>The first selected position and the number of selected positions.\<close>

fun slice_range :: "py_slice \<Rightarrow> nat \<Rightarrow> nat \<times> nat" where
  "slice_range Colon n = (0, n)"
| "slice_range (Slice start stop) n =
     (case slice_indices start stop n of (lo, hi) \<Rightarrow> (lo, hi - lo))"

definition slice_ranges :: "py_slice list \<Rightarrow> nat list \<Rightarrow> (nat \<times> nat) list" where
  "slice_ranges key sh = map2 slice_range (key @ replicate (length sh - length key) Colon) sh"

definition np_slice :: "'a ndarray \<Rightarrow> py_slice list \<Rightarrow> 'a ndarray result" where
  "np_slice a key =
     (if length (shape a) < length key then Inl IndexError
      else let rs = slice_ranges key (shape a)
           in Inr (tabulate (map snd rs) (\<lambda>idx. item a (map2 (+) (map fst rs) idx))))"

text \<open>\<^verbatim>\<open>a[key] += v\<close> for a key of slices and a scalar \<open>v\<close>.\<close>

definition in_ranges :: "(nat \<times> nat) list \<Rightarrow> nat list \<Rightarrow> bool" where
  "in_ranges rs idx = list_all2 (\<lambda>i r. fst r \<le> i \<and> i < fst r + snd r) idx rs"

definition np_iadd_slice :: "real ndarray \<Rightarrow> py_slice list \<Rightarrow> real \<Rightarrow> real ndarray result" where
  "np_iadd_slice a key v =
     (if length (shape a) < length key then Inl IndexError
      else let rs = slice_ranges key (shape a)
           in Inr (tabulate (shape a)
                (\<lambda>idx. if in_ranges rs idx then item a idx + v else item a idx)))"

text \<open>
  \<^verbatim>\<open>np.concatenate(arrays, axis)\<close>: all arrays have the same number of axes and agree
  on every axis but \<open>axis\<close>, otherwise ValueError.
\<close>

fun concat_item :: "nat \<Rightarrow> 'a ndarray \<Rightarrow> 'a ndarray list \<Rightarrow> nat list \<Rightarrow> 'a" where
  "concat_item axis a [] idx = item a idx"
| "concat_item axis a (b # bs) idx =
     (if idx ! axis < shape a ! axis then item a idx
      else concat_item axis b bs (idx[axis := idx ! axis - shape a ! axis]))"

definition np_concatenate :: "'a ndarray list \<Rightarrow> nat \<Rightarrow> 'a ndarray result" where
  "np_concatenate arrays axis =
     (case arrays of
        [] \<Rightarrow> Inl ValueError
      | a # bs \<Rightarrow>
          if list_ex (\<lambda>b. length (shape b) \<noteq> length (shape a)) bs then Inl ValueError
          else if length (shape a) \<le> axis then Inl ValueError
          else if list_ex (\<lambda>b. (shape b)[axis := 0] \<noteq> (shape a)[axis := 0]) bs
            then Inl ValueError
          else Inr (tabulate ((shape a)[axis := sum_list (map (\<lambda>b. shape b ! axis) arrays)])
                      (concat_item axis a bs)))"

text \<open>
  \<^verbatim>\<open>np.pad(a, pad_widths, 'edge')\<close>: a single pair applies to every axis; an empty axis
  cannot be extended.
\<close>

definition np_pad_edge :: "'a ndarray \<Rightarrow> (int \<times> int) list \<Rightarrow> 'a ndarray result" where
  "np_pad_edge a pad_widths =
     (let ws = (if length pad_widths = 1 then replicate (length (shape a)) (hd pad_widths)
                else pad_widths)
      in if length ws \<noteq> length (shape a) then Inl ValueError
         else if list_ex (\<lambda>w. fst w < 0 \<or> snd w < 0) ws then Inl ValueError
         else if list_ex (\<lambda>(n, w). n = 0 \<and> (0 < fst w \<or> 0 < snd w)) (zip (shape a) ws)
           then Inl ValueError
         else Inr (tabulate (map2 (\<lambda>n w. n + nat (fst w) + nat (snd w)) (shape a) ws)
                (\<lambda>idx. item a (map2 (\<lambda>(i, n) w. min (n - 1) (i - nat (fst w)))
                                   (zip idx (shape a)) ws))))"

section \<open>CloudExtras: the tag encoding of tuples\<close>

text \<open>
  Strings are ASCII. \<open>str_int\<close> is \<^verbatim>\<open>str\<close> on an integer, \<open>int_of_str\<close> is \<^verbatim>\<open>int\<close> on
  a string (surrounding ASCII white space, a sign and single underscores between digits
  are accepted), \<open>str_split\<close> is \<^verbatim>\<open>s.split(sep)\<close> for a one-character separator.
\<close>

definition digit_char :: "nat \<Rightarrow> char" where
  "digit_char d = ''0123456789'' ! d"

definition is_digit :: "char \<Rightarrow> bool" where
  "is_digit c = (c \<in> set ''0123456789'')"

definition digit_val :: "char \<Rightarrow> nat" where
  "digit_val c = of_char c - 48"

function digits_of :: "nat \<Rightarrow> string" where
  "digits_of n =
     (if n < 10 then [digit_char n] else digits_of (n div 10) @ [digit_char (n mod 10)])"
  by pat_completeness auto
termination
  by (relation "measure id") auto

declare digits_of.simps [simp del]

definition str_int :: "int \<Rightarrow> string" where
  "str_int i = (if i < 0 then CHR ''-'' # digits_of (nat (- i)) else digits_of (nat i))"

definition is_space :: "char \<Rightarrow> bool" where
  "is_space c = (c \<in> set [CHR 0x09, CHR 0x0A, CHR 0x0B, CHR 0x0C, CHR 0x0D, CHR '' ''])"

definition strip :: "string \<Rightarrow> string" where
  "strip s = rev (dropWhile is_space (rev (dropWhile is_space s)))"

fun str_split :: "char \<Rightarrow> string \<Rightarrow> string list" where
  "str_split sep [] = [[]]"
| "str_split sep (c # cs) =
     (if c = sep then [] # str_split sep cs
      else (case str_split sep cs of [] \<Rightarrow> [[c]] | p # ps \<Rightarrow> (c # p) # ps))"

definition nat_of_digits :: "string \<Rightarrow> nat" where
  "nat_of_digits ds = foldl (\<lambda>a c. 10 * a + digit_val c) 0 ds"

definition int_of_str :: "string \<Rightarrow> int result" where
  "int_of_str s =
     (let t = strip s;
          neg = (t \<noteq> [] \<and> hd t = CHR ''-'');
          body = (if t \<noteq> [] \<and> (hd t = CHR ''-'' \<or> hd t = CHR ''+'') then tl t else t);
          groups = str_split CHR ''_'' body
      in if [] \<in> set groups \<or> \<not> list_all is_digit (concat groups) then Inl ValueError
         else if neg then Inr (- int (nat_of_digits (concat groups)))
         else Inr (int (nat_of_digits (concat groups))))"

text \<open>
  \<^verbatim>\<open>convert_to_string(t)\<close>. The element printer \<^verbatim>\<open>str\<close> is a parameter: \<open>str_int\<close>
  for a shape, the float printer for an origin or a spacing.
\<close>

definition convert_to_string :: "('a \<Rightarrow> string) \<Rightarrow> 'a list \<Rightarrow> string result" where
  "convert_to_string str t =
     (if length t = 2 then
        bind_result (getitem t 0) (\<lambda>a. bind_result (getitem t 1) (\<lambda>b.
          Inr (str a @ ''S'' @ str b)))
      else
        bind_result (getitem t 0) (\<lambda>a. bind_result (getitem t 1) (\<lambda>b.
        bind_result (getitem t 2) (\<lambda>c.
          Inr (str a @ ''S'' @ str b @ ''S'' @ str c)))))"

definition convert_int_from_string :: "string \<Rightarrow> int list result" where
  "convert_int_from_string s =
     (let s_split = str_split CHR ''S'' s; ndim = length s_split in
      bind_result (getitem s_split 0) (\<lambda>p1. bind_result (int_of_str p1) (\<lambda>n1.
      bind_result (getitem s_split 1) (\<lambda>p2. bind_result (int_of_str p2) (\<lambda>n2.
      if ndim = 2 then Inr [n1, n2]
      else bind_result (getitem s_split 2) (\<lambda>p3. bind_result (int_of_str p3) (\<lambda>n3.
        Inr [n1, n2, n3])))))))"

text \<open>
  \<^verbatim>\<open>convert_float_from_string(s)\<close>. Python's \<^verbatim>\<open>float\<close> parser and the float printer are
  not part of the repository; they are parameters \<open>py_float\<close> and \<open>str_float\<close> over an
  abstract type \<open>'f\<close> of floats. \<open>repr_round_trips\<close> says of one float that its printed
  form is made of the characters a Python float prints (digits, sign, point, exponent,
  \<^verbatim>\<open>inf\<close>, \<^verbatim>\<open>nan\<close>) and parses back to the same float.
\<close>

definition convert_float_from_string :: "(string \<Rightarrow> 'f result) \<Rightarrow> string \<Rightarrow> 'f list result" where
  "convert_float_from_string py_float s =
     (let s_split = str_split CHR ''S'' s; ndim = length s_split in
      bind_result (getitem s_split 0) (\<lambda>p1. bind_result (py_float p1) (\<lambda>d1.
      bind_result (getitem s_split 1) (\<lambda>p2. bind_result (py_float p2) (\<lambda>d2.
      if ndim = 2 then Inr [d1, d2]
      else bind_result (getitem s_split 2) (\<lambda>p3. bind_result (py_float p3) (\<lambda>d3.
        Inr [d1, d2, d3])))))))"

definition float_repr_chars :: "char set" where
  "float_repr_chars = set ''0123456789.-+einfa''"

definition repr_round_trips :: "('f \<Rightarrow> string) \<Rightarrow> (string \<Rightarrow> 'f result) \<Rightarrow> 'f \<Rightarrow> bool" where
  "repr_round_trips str_float py_float x =
     (set (str_float x) \<subseteq> float_repr_chars \<and> py_float (str_float x) = Inr x)"

section \<open>CloudExtras: restricting a model to the aperture and embedding a gradient\<close>

definition domain_extent :: "nat list \<Rightarrow> real list \<Rightarrow> int \<Rightarrow> real result" where
  "domain_extent shp spacing axis =
     bind_result (getitem shp axis) (\<lambda>n.
     bind_result (getitem spacing axis) (\<lambda>d. Inr (real_of_int (int n - 1) * d)))"

definition coordinate_range :: "real list \<Rightarrow> real list \<Rightarrow> (real \<times> real) result" where
  "coordinate_range s g =
     bind_result (np_min s) (\<lambda>min_s. bind_result (np_min g) (\<lambda>min_g.
     bind_result (np_max s) (\<lambda>max_s. bind_result (np_max g) (\<lambda>max_g.
       Inr (min min_s min_g, max max_s max_g)))))"

definition add_buffer :: "real list \<Rightarrow> real list \<Rightarrow> int \<Rightarrow> real \<Rightarrow> real \<times> real \<Rightarrow> (real \<times> real) result" where
  "add_buffer origin domain_size axis buffer_size r =
     bind_result (getitem origin axis) (\<lambda>o_axis.
     bind_result (getitem domain_size axis) (\<lambda>extent.
       Inr (max o_axis (fst r - buffer_size), min (o_axis + extent) (snd r + buffer_size))))"

definition index_range :: "real list \<Rightarrow> int \<Rightarrow> real \<times> real \<Rightarrow> (int \<times> int) result" where
  "index_range spacing axis r =
     bind_result (getitem spacing axis) (\<lambda>d.
     bind_result (np_int_quot (fst r) d) (\<lambda>n_min.
     bind_result (np_int_quot (snd r) d) (\<lambda>n_max. Inr (n_min, n_max))))"

definition restrict_model_to_receiver_grid ::
  "real list \<Rightarrow> real list \<Rightarrow> 'a ndarray \<Rightarrow> real list \<Rightarrow> real list \<Rightarrow> real list option
     \<Rightarrow> real list option \<Rightarrow> real \<Rightarrow> ('a ndarray \<times> nat list \<times> real list) result" where
  "restrict_model_to_receiver_grid sx gx m spacing origin sy gy buffer_size =
     (let shp = shape m; ndim = length shp in
      bind_result
        (if ndim = 2 then sequence (map (domain_extent shp spacing) [0, 1])
         else sequence (map (domain_extent shp spacing) [0, 1, 2])) (\<lambda>domain_size.
      bind_result (coordinate_range sx gx) (\<lambda>x_range.
      bind_result
        (case (sy, gy) of
           (Some sy', Some gy') \<Rightarrow> bind_result (coordinate_range sy' gy') (\<lambda>r. Inr (Some r))
         | _ \<Rightarrow> Inr None) (\<lambda>y_range.
      bind_result (add_buffer origin domain_size 0 buffer_size x_range) (\<lambda>x_range.
      bind_result
        (if ndim = 3 then
           (case y_range of
              None \<Rightarrow> Inl UnboundLocalError
            | Some r \<Rightarrow>
                bind_result (add_buffer origin domain_size 1 buffer_size r) (\<lambda>r. Inr (Some r)))
         else Inr y_range) (\<lambda>y_range.
      bind_result (index_range spacing 0 x_range) (\<lambda>(nx_min, nx_max).
      bind_result (getitem spacing 0) (\<lambda>d0.
      let ox = real_of_int nx_min * d0 in
      bind_result (getitem origin (- 1)) (\<lambda>oz.
      bind_result
        (if ndim = 3 then
           (case y_range of
              None \<Rightarrow> Inl UnboundLocalError
            | Some r \<Rightarrow>
                bind_result (index_range spacing 1 r) (\<lambda>(ny_min, ny_max).
                bind_result (getitem spacing 1) (\<lambda>d1.
                  Inr (Some (ny_min, ny_max, real_of_int ny_min * d1)))))
         else Inr None) (\<lambda>y_index.
      if ndim = 2 then
        bind_result (np_slice m [Slice nx_min (nx_max + 1), Colon]) (\<lambda>m'.
          Inr (m', shape m', [ox, oz]))
      else
        (case y_index of
           None \<Rightarrow> Inl UnboundLocalError
         | Some (ny_min, ny_max, oy) \<Rightarrow>
             bind_result
               (np_slice m [Slice nx_min (nx_max + 1), Slice ny_min (ny_max + 1), Colon]) (\<lambda>m'.
               Inr (m', shape m', [ox, oy, oz])))))))))))))"





definition y_coordinates_ok :: "real list option \<Rightarrow> real list option \<Rightarrow> bool" where
  "y_coordinates_ok sy gy =
     (case (sy, gy) of (Some sy', Some gy') \<Rightarrow> sy' \<noteq> [] \<and> gy' \<noteq> [] | _ \<Rightarrow> True)"

definition left_offset :: "real list \<Rightarrow> real list \<Rightarrow> real list \<Rightarrow> int \<Rightarrow> int result" where
  "left_offset origin_full origin_sub spacing axis =
     bind_result (getitem origin_sub axis) (\<lambda>o_sub.
     bind_result (getitem origin_full axis) (\<lambda>o_full.
     bind_result (getitem spacing axis) (\<lambda>d. py_int_quot (o_sub - o_full) d)))"

definition right_offset :: "int list \<Rightarrow> int list \<Rightarrow> int \<Rightarrow> int \<Rightarrow> int result" where
  "right_offset shape_full shape_sub left axis =
     bind_result (getitem shape_full axis) (\<lambda>n_full.
     bind_result (getitem shape_sub axis) (\<lambda>n_sub. Inr (n_full - n_sub - left)))"

definition extent_gradient ::
  "int list \<Rightarrow> real list \<Rightarrow> int list \<Rightarrow> real list \<Rightarrow> real list \<Rightarrow> ('a::zero) ndarray
     \<Rightarrow> 'a ndarray result" where
  "extent_gradient shape_full origin_full shape_sub origin_sub spacing g =
     bind_result (getitem shape_full (- 1)) (\<lambda>nz.
     let ndim = length shape_full in
     bind_result (left_offset origin_full origin_sub spacing 0) (\<lambda>nx_left.
     bind_result (right_offset shape_full shape_sub nx_left 0) (\<lambda>nx_right.
     bind_result
       (if ndim = 3 then
          bind_result (left_offset origin_full origin_sub spacing 1) (\<lambda>ny_left.
          bind_result (right_offset shape_full shape_sub ny_left 1) (\<lambda>ny_right.
            Inr (Some (ny_left, ny_right))))
        else Inr None) (\<lambda>ny.
     if ndim = 2 then
       bind_result (np_zeros [nx_left, nz]) (\<lambda>block1.
       bind_result (np_zeros [nx_right, nz]) (\<lambda>block2.
         np_concatenate [block1, g, block2] 0))
     else
       bind_result (getitem shape_sub 1) (\<lambda>n_sub1.
       bind_result (np_zeros [nx_left, n_sub1, nz]) (\<lambda>block1.
       bind_result (np_zeros [nx_right, n_sub1, nz]) (\<lambda>block2.
       bind_result (np_concatenate [block1, g, block2] 0) (\<lambda>g1.
       bind_result (getitem shape_full 0) (\<lambda>n_full0.
       (case ny of
          None \<Rightarrow> Inl UnboundLocalError
        | Some (ny_left, ny_right) \<Rightarrow>
            bind_result (np_zeros [n_full0, ny_left, nz]) (\<lambda>block3.
            bind_result (np_zeros [n_full0, ny_right, nz]) (\<lambda>block4.
              np_concatenate [block3, g1, block4] 1))))))))))))"

text \<open>
  The composition the round-trip property is about: the sub-array, shape and origin that
  \<^verbatim>\<open>restrict_model_to_receiver_grid\<close> returns are handed to \<^verbatim>\<open>extent_gradient\<close>
  together with the shape, origin and spacing of the full model.
\<close>

definition restrict_then_extent ::
  "real list \<Rightarrow> real list \<Rightarrow> ('a::zero) ndarray \<Rightarrow> real list \<Rightarrow> real list \<Rightarrow> real list option
     \<Rightarrow> real list option \<Rightarrow> real \<Rightarrow> 'a ndarray result" where
  "restrict_then_extent sx gx m spacing origin sy gy buffer_size =
     bind_result (restrict_model_to_receiver_grid sx gx m spacing origin sy gy buffer_size)
       (\<lambda>(m_sub, shape_sub, origin_sub).
          extent_gradient (map int (shape m)) origin (map int shape_sub) origin_sub spacing m_sub)"

section \<open>PyModel: what the module uses of NumPy and devito\<close>

text \<open>A loop whose body may raise: the state is threaded through the iterations.\<close>

fun foldM :: "('a \<Rightarrow> 's \<Rightarrow> 's result) \<Rightarrow> 'a list \<Rightarrow> 's \<Rightarrow> 's result" where
  "foldM f [] s = Inr s"
| "foldM f (x # xs) s = bind_result (f x s) (foldM f xs)"

definition np_map :: "('a \<Rightarrow> 'b) \<Rightarrow> 'a ndarray \<Rightarrow> 'b ndarray" where
  "np_map f a = \<lparr>shape = shape a, flat = map f (flat a)\<rparr>"

text \<open>
  The product of two one-axis arrays, as in \<^verbatim>\<open>np.array(spacing) * (shape_pml - 1)\<close>: equal
  lengths multiply pointwise, a length of one is broadcast, anything else raises ValueError.
\<close>

definition np_multiply :: "real list \<Rightarrow> real list \<Rightarrow> real list result" where
  "np_multiply xs ys =
     (if length xs = length ys then Inr (map2 (*) xs ys)
      else if length xs = 1 then Inr (map ((*) (hd xs)) ys)
      else if length ys = 1 then Inr (map (\<lambda>x. x * hd ys) xs)
      else Inl ValueError)"

text \<open>
  \<^verbatim>\<open>tgt[:] = src\<close>: the source is broadcast to the target, its axes aligned from the
  right and an axis of length one repeated.
\<close>

definition broadcast_ok :: "nat list \<Rightarrow> nat list \<Rightarrow> bool" where
  "broadcast_ok src tgt =
     (length src \<le> length tgt \<and>
      list_all2 (\<lambda>s t. s = t \<or> s = 1) src (drop (length tgt - length src) tgt))"

definition np_assign :: "'a ndarray \<Rightarrow> 'a ndarray \<Rightarrow> 'a ndarray result" where
  "np_assign tgt src =
     (if broadcast_ok (shape src) (shape tgt) then
        Inr (tabulate (shape tgt)
          (\<lambda>idx. item src (map2 (\<lambda>i s. if s = 1 then 0 else i)
                              (drop (length (shape tgt) - length (shape src)) idx) (shape src))))
      else Inl ValueError)"

text \<open>
  \<^verbatim>\<open>np.sqrt\<close> of a negative number is \<^verbatim>\<open>nan\<close>, and \<^verbatim>\<open>1 / (vp * vp)\<close> with a zero entry
  is \<^verbatim>\<open>inf\<close>: both leave the idealisation.
\<close>

definition np_sqrt :: "real \<Rightarrow> real result" where
  "np_sqrt x = (if x < 0 then Inl NonFinite else Inr (sqrt x))"

definition np_sqrt_array :: "real ndarray \<Rightarrow> real ndarray result" where
  "np_sqrt_array a =
     (if list_ex (\<lambda>x. x < 0) (flat a) then Inl NonFinite else Inr (np_map sqrt a))"

definition slowness :: "real ndarray \<Rightarrow> real ndarray result" where
  "slowness vp =
     (if list_ex (\<lambda>v. v = 0) (flat vp) then Inl NonFinite
      else Inr (np_map (\<lambda>v. 1 / (v * v)) vp))"

text \<open>
  A physical parameter handed to the constructor is a number or an array
  (\<^verbatim>\<open>isinstance(vp, np.ndarray)\<close>).
\<close>

datatype param = Number real | Array "real ndarray"

text \<open>
  A devito \<^verbatim>\<open>Grid\<close>, as far as the module reads it: the extent, shape and origin it was
  built with, and the width \<^verbatim>\<open>nbpml\<close> of its \<^verbatim>\<open>PhysicalDomain\<close> sub-domain, which
  leaves out that many points at both ends of every axis. The spacing of a grid is its
  extent divided by the number of cells, \<^verbatim>\<open>extent / (shape - 1)\<close>.
\<close>

record Grid =
  grid_extent :: "real list"
  grid_shape :: "int list"
  grid_origin :: "real list"
  grid_phydomain :: int

definition grid_spacing :: "Grid \<Rightarrow> real list result" where
  "grid_spacing g =
     (if list_ex (\<lambda>n. n = 1) (grid_shape g) then Inl NonFinite
      else Inr (map2 (\<lambda>e n. e / real_of_int (n - 1)) (grid_extent g) (grid_shape g)))"

definition phydomain_shape :: "Grid \<Rightarrow> int list" where
  "phydomain_shape g = map (\<lambda>n. n - grid_phydomain g - grid_phydomain g) (grid_shape g)"

text \<open>
  A devito \<^verbatim>\<open>Function\<close> on a grid: its storage \<^verbatim>\<open>data_with_halo\<close> has the shape of the
  grid plus a halo of \<^verbatim>\<open>space_order\<close> points on both sides of every axis and starts at
  zero; \<^verbatim>\<open>data\<close> is the storage without the halo.
\<close>

record Function =
  fn_grid :: Grid
  size_halo :: "(nat \<times> nat) list"
  data_with_halo :: "real ndarray"

definition new_Function :: "Grid \<Rightarrow> int \<Rightarrow> Function result" where
  "new_Function g space_order =
     (if space_order < 0 then Inl ValueError
      else bind_result (np_zeros (map (\<lambda>n. n + 2 * space_order) (grid_shape g))) (\<lambda>d.
        Inr \<lparr>fn_grid = g,
             size_halo = replicate (length (grid_shape g)) (nat space_order, nat space_order),
             data_with_halo = d\<rparr>))"

definition fn_data :: "Function \<Rightarrow> real ndarray result" where
  "fn_data f =
     np_slice (data_with_halo f)
       (map2 (\<lambda>h n. Slice (int (fst h)) (int n - int (snd h))) (size_halo f)
          (shape (data_with_halo f)))"

section \<open>PyModel: the damping field\<close>

definition initialize_function :: "Function \<Rightarrow> real ndarray \<Rightarrow> int \<Rightarrow> Function result" where
  "initialize_function function data nbpml =
     (let pad_widths = map (\<lambda>i. (nbpml + int (fst i), nbpml + int (snd i))) (size_halo function) in
      bind_result (np_pad_edge data pad_widths) (\<lambda>data.
      bind_result (np_assign (data_with_halo function) data) (\<lambda>d.
        Inr (function\<lparr>data_with_halo := d\<rparr>))))"

text \<open>
  The body of \<^verbatim>\<open>initialize_damp\<close>. \<open>dampcoeff\<close> is the coefficient as the source
  computes it, \<open>damp_pos\<close> and \<open>damp_val\<close> are \<^verbatim>\<open>pos\<close> and \<^verbatim>\<open>val\<close> of layer \<open>j\<close>, and
  \<open>damp_layer\<close> is one pass of the inner loop on axis \<open>i\<close>: the two in-place additions
  to the slices \<^verbatim>\<open>j:j+1\<close> and \<^verbatim>\<open>n-j:n-j+1\<close> of that axis. The parameter \<^verbatim>\<open>mask\<close> is
  written \<open>mask'\<close>.
\<close>

definition dampcoeff :: real where
  "dampcoeff = 1.5 * ln (1.0 / 0.001) / 40"

definition damp_pos :: "int \<Rightarrow> int \<Rightarrow> real" where
  "damp_pos nbpml j = \<bar>real_of_int (nbpml - j + 1) / real_of_int nbpml\<bar>"

definition damp_val :: "int \<Rightarrow> int \<Rightarrow> bool \<Rightarrow> real" where
  "damp_val nbpml j mask' =
     (let pos = damp_pos nbpml j;
          val = dampcoeff * (pos - sin (2 * pi * pos) / (2 * pi))
      in if mask' then - val else val)"

definition damp_layer :: "int \<Rightarrow> real list \<Rightarrow> bool \<Rightarrow> nat \<Rightarrow> int \<Rightarrow> real ndarray
    \<Rightarrow> real ndarray result" where
  "damp_layer nbpml spacing mask' i j data =
     (let val = damp_val nbpml j mask';
          all_ind = map (\<lambda>d. Slice 0 (int d)) (shape data);
          n = int (shape data ! i)
      in bind_result (getitem spacing (int i)) (\<lambda>h.
         if h = 0 then Inl NonFinite
         else
           bind_result (np_iadd_slice data (all_ind[i := Slice j (j + 1)]) (val / h)) (\<lambda>data.
           np_iadd_slice data (all_ind[i := Slice (n - j) (n - j + 1)]) (val / h))))"

definition initialize_damp :: "Function \<Rightarrow> int \<Rightarrow> real list \<Rightarrow> bool \<Rightarrow> Function result" where
  "initialize_damp damp nbpml spacing mask' =
     (let phy_shape = phydomain_shape (fn_grid damp);
          ndim = length (grid_shape (fn_grid damp))
      in bind_result (if mask' then np_ones phy_shape else np_zeros phy_shape) (\<lambda>data.
         bind_result (np_pad_edge data (replicate ndim (nbpml, nbpml))) (\<lambda>data.
         if \<not> list_all (\<lambda>i. i = hd (size_halo damp)) (size_halo damp) then Inl AssertionError
         else
           bind_result
             (foldM (\<lambda>i. foldM (damp_layer nbpml spacing mask' i) (map int [0..<nat nbpml]))
                [0..<ndim] data) (\<lambda>data.
           initialize_function damp data 0))))"

text \<open>The profile of the taper: \<open>damp_val\<close> is \<open>dampcoeff * taper pos\<close>, up to its sign.\<close>

definition taper :: "real \<Rightarrow> real" where
  "taper pos = pos - sin (2 * pi * pos) / (2 * pi)"

text \<open>
  The smallest grid with two layers on every side: five points on both axes, one of them
  physical. \<open>example_damp\<close> is the damping mask \<^verbatim>\<open>Model.__init__\<close> builds on it (a
  \<^verbatim>\<open>Function\<close> of space order 1, \<^verbatim>\<open>mask=True\<close>), read back without its halo, and
  \<open>damp_5x5\<close> is the array that comes out, in terms of \<open>dampcoeff\<close>.
\<close>

definition example_damp_grid :: Grid where
  "example_damp_grid =
     \<lparr>grid_extent = [4, 4], grid_shape = [5, 5], grid_origin = [0, 0], grid_phydomain = 2\<rparr>"

definition example_damp :: "real ndarray result" where
  "example_damp =
     bind_result (new_Function example_damp_grid 1) (\<lambda>damp.
     bind_result (initialize_damp damp 2 [1, 1] True) fn_data)"

definition damp_5x5 :: "real ndarray" where
  "damp_5x5 = \<lparr>shape = [5, 5],
        flat =
          [1 - 3 * dampcoeff, 1 - 5 * dampcoeff / 2, 1 - 3 * dampcoeff / 2,
           1 - 3 * dampcoeff / 2, 1 - 5 * dampcoeff / 2,
           1 - 5 * dampcoeff / 2, 1 - 2 * dampcoeff, 1 - dampcoeff,
           1 - dampcoeff, 1 - 2 * dampcoeff,
           1 - 3 * dampcoeff / 2, 1 - dampcoeff, 1, 1, 1 - dampcoeff,
           1 - 3 * dampcoeff / 2, 1 - dampcoeff, 1, 1, 1 - dampcoeff,
           1 - 5 * dampcoeff / 2, 1 - 2 * dampcoeff, 1 - dampcoeff, 1 - dampcoeff,
           1 - 2 * dampcoeff]\<rparr>"

section \<open>PyModel: the model\<close>

text \<open>
  An attribute of the model that is either a plain number or a \<^verbatim>\<open>Function\<close> on the grid.
\<close>

datatype field = Scalar real | OnGrid Function

text \<open>The arguments of \<^verbatim>\<open>Model.__init__\<close> and the attributes it sets.\<close>

record Model_args =
  arg_origin :: "real list"
  arg_spacing :: "real list"
  arg_shape :: "int list"
  arg_vp :: param
  arg_rho :: param
  arg_nbpml :: int
  arg_dm :: "real ndarray option"
  arg_epsilon :: "param option"
  arg_delta :: "param option"
  arg_theta :: "param option"
  arg_phi :: "param option"
  arg_space_order :: int

record Model =
  self_shape :: "int list"
  self_nbpml :: int
  self_origin :: "real list"
  self_is_tti :: bool
  self_grid :: Grid
  self_m :: field
  self_rho :: field
  self_vp :: param
  self_damp :: Function
  self_scale :: real
  self_dm :: field
  self_epsilon :: field
  self_delta :: field
  self_theta :: field
  self_phi :: field

definition new_field :: "Grid \<Rightarrow> int \<Rightarrow> real ndarray \<Rightarrow> int \<Rightarrow> field result" where
  "new_field g space_order a nbpml =
     bind_result (new_Function g space_order) (\<lambda>f.
     bind_result (initialize_function f a nbpml) (\<lambda>f. Inr (OnGrid f)))"

text \<open>
  The setter of \<^verbatim>\<open>vp\<close>. With an array it re-initialises \<^verbatim>\<open>self.m\<close>; otherwise it
  assigns to \<^verbatim>\<open>self.m.data\<close>. When \<^verbatim>\<open>self.m\<close> is the float \<^verbatim>\<open>1/vp**2\<close> neither is
  possible: a float has no attribute \<^verbatim>\<open>data\<close> and no halo, and Python raises
  AttributeError. The assignment to the \<^verbatim>\<open>data\<close> of a devito \<^verbatim>\<open>Function\<close> is the
  parameter \<open>set_data\<close>.
\<close>

definition update_m ::
  "(Function \<Rightarrow> real \<Rightarrow> Function result) \<Rightarrow> field \<Rightarrow> int \<Rightarrow> param \<Rightarrow> field result" where
  "update_m set_data m nbpml vp =
     (case vp of
        Array a \<Rightarrow>
          bind_result (slowness a) (\<lambda>s.
            (case m of
               OnGrid f \<Rightarrow> bind_result (initialize_function f s nbpml) (\<lambda>f. Inr (OnGrid f))
             | Scalar x \<Rightarrow> Inl AttributeError))
      | Number v \<Rightarrow>
          if v = 0 then Inl ZeroDivisionError
          else (case m of
                  Scalar x \<Rightarrow> Inl AttributeError
                | OnGrid f \<Rightarrow> bind_result (set_data f (1 / v\<^sup>2)) (\<lambda>f. Inr (OnGrid f))))"

definition vp_setter ::
  "(Function \<Rightarrow> real \<Rightarrow> Function result) \<Rightarrow> Model \<Rightarrow> param \<Rightarrow> Model result" where
  "vp_setter set_data self vp =
     bind_result (update_m set_data (self_m self) (self_nbpml self) vp) (\<lambda>m.
       Inr (self\<lparr>self_vp := vp, self_m := m\<rparr>))"

text \<open>
  The branches of the constructor for \<^verbatim>\<open>epsilon\<close> (which also sets \<^verbatim>\<open>scale\<close>),
  \<^verbatim>\<open>delta\<close>, and the two angles \<^verbatim>\<open>theta\<close> and \<^verbatim>\<open>phi\<close>.
\<close>

definition init_epsilon :: "Grid \<Rightarrow> int \<Rightarrow> int \<Rightarrow> param option \<Rightarrow> (field \<times> real) result" where
  "init_epsilon g space_order nbpml epsilon =
     (case epsilon of
        None \<Rightarrow> Inr (Scalar 1, 1)
      | Some (Array e) \<Rightarrow>
          bind_result (new_Function g space_order) (\<lambda>f.
          bind_result (initialize_function f (np_map (\<lambda>x. 1 + 2 * x) e) nbpml) (\<lambda>f.
          bind_result (fn_data f) (\<lambda>d.
          bind_result (np_max (flat d)) (\<lambda>mx.
            if 0 < mx then Inr (OnGrid f, sqrt mx) else Inr (OnGrid f, 1)))))
      | Some (Number e) \<Rightarrow>
          bind_result (np_sqrt (1 + 2 * e)) (\<lambda>s. Inr (Scalar (1 + 2 * e), s)))"

definition init_delta :: "Grid \<Rightarrow> int \<Rightarrow> int \<Rightarrow> param option \<Rightarrow> field result" where
  "init_delta g space_order nbpml delta =
     (case delta of
        None \<Rightarrow> Inr (Scalar 1)
      | Some (Array d) \<Rightarrow>
          bind_result (new_Function g space_order) (\<lambda>f.
          bind_result (np_sqrt_array (np_map (\<lambda>x. 1 + 2 * x) d)) (\<lambda>a.
          bind_result (initialize_function f a nbpml) (\<lambda>f. Inr (OnGrid f))))
      | Some (Number d) \<Rightarrow> bind_result (np_sqrt (1 + 2 * d)) (\<lambda>s. Inr (Scalar s)))"

definition init_angle :: "Grid \<Rightarrow> int \<Rightarrow> int \<Rightarrow> param option \<Rightarrow> field result" where
  "init_angle g space_order nbpml angle =
     (case angle of
        None \<Rightarrow> Inr (Scalar 0)
      | Some (Array a) \<Rightarrow> new_field g space_order a nbpml
      | Some (Number a) \<Rightarrow> Inr (Scalar a))"

text \<open>
  \<^verbatim>\<open>Model.__init__\<close>, statement by statement: the grid with its absorbing layers, the
  slowness \<^verbatim>\<open>m\<close>, the density, the assignment \<^verbatim>\<open>self.vp = vp\<close> through the setter,
  the damping mask, and the optional fields.
\<close>

definition Model_init ::
  "(Function \<Rightarrow> real \<Rightarrow> Function result) \<Rightarrow> Model_args \<Rightarrow> Model result" where
  "Model_init set_data args =
     (let origin = arg_origin args; spacing = arg_spacing args; shp = arg_shape args;
          vp = arg_vp args; nbpml = arg_nbpml args; space_order = arg_space_order args;
          origin_pml = map2 (\<lambda>o_axis s. o_axis - s * real_of_int nbpml) origin spacing;
          shape_pml = map (\<lambda>n. n + 2 * nbpml) shp
      in
      bind_result (np_multiply spacing (map (\<lambda>n. real_of_int (n - 1)) shape_pml)) (\<lambda>extent.
      let grid = \<lparr>grid_extent = extent, grid_shape = shape_pml, grid_origin = origin_pml,
                  grid_phydomain = nbpml\<rparr>
      in
      bind_result
        (case vp of
           Array a \<Rightarrow> bind_result (new_Function grid space_order) (\<lambda>f. Inr (OnGrid f))
         | Number v \<Rightarrow> if v = 0 then Inl ZeroDivisionError else Inr (Scalar (1 / v\<^sup>2))) (\<lambda>m.
      bind_result
        (case arg_rho args of
           Array r \<Rightarrow> new_field grid space_order r nbpml
         | Number r \<Rightarrow> Inr (Scalar r)) (\<lambda>rho.
      bind_result (update_m set_data m nbpml vp) (\<lambda>m.
      bind_result (new_Function grid 1) (\<lambda>damp.
      bind_result (grid_spacing grid) (\<lambda>self_spacing.
      bind_result (initialize_damp damp nbpml self_spacing True) (\<lambda>damp.
      bind_result
        (case arg_dm args of
           Some d \<Rightarrow> new_field grid space_order d nbpml
         | None \<Rightarrow> Inr (Scalar 1)) (\<lambda>dm.
      bind_result (init_epsilon grid space_order nbpml (arg_epsilon args)) (\<lambda>(epsilon, scale).
      bind_result (init_delta grid space_order nbpml (arg_delta args)) (\<lambda>delta.
      bind_result (init_angle grid space_order nbpml (arg_theta args)) (\<lambda>theta.
      bind_result (init_angle grid space_order nbpml (arg_phi args)) (\<lambda>phi.
        Inr \<lparr>self_shape = shp, self_nbpml = nbpml, self_origin = origin,
             self_is_tti = (arg_epsilon args \<noteq> None \<or> arg_delta args \<noteq> None \<or>
                            arg_theta args \<noteq> None \<or> arg_phi args \<noteq> None),
             self_grid = grid, self_m = m, self_rho = rho, self_vp = vp, self_damp = damp,
             self_scale = scale, self_dm = dm, self_epsilon = epsilon, self_delta = delta,
             self_theta = theta, self_phi = phi\<rparr>)))))))))))))"

text \<open>
  The property \<^verbatim>\<open>critical_dt\<close>. \<^verbatim>\<open>self.dtype\<close> is the floating-point type of the grid
  (\<^verbatim>\<open>np.float32\<close> unless the caller of the constructor chooses another); applied to a
  number it rounds the number to that type. It is the parameter \<open>dtype\<close>, used at the two
  places where the source uses it; the arithmetic between the two casts is exact. A zero
  denominator makes the quotient \<^verbatim>\<open>inf\<close> or \<^verbatim>\<open>nan\<close>, which the cast leaves as it is,
  and \<^verbatim>\<open>int\<close> of those raises OverflowError and ValueError.
\<close>

definition critical_dt :: "(real \<Rightarrow> real) \<Rightarrow> Model \<Rightarrow> real result" where
  "critical_dt dtype self =
     (let coeff = (if length (self_shape self) = 3 then 0.38 else 0.42) in
      bind_result (grid_spacing (self_grid self)) (\<lambda>spacing.
      bind_result (np_min spacing) (\<lambda>h.
      bind_result (case self_vp self of Number v \<Rightarrow> Inr v | Array a \<Rightarrow> np_max (flat a)) (\<lambda>v_max.
      let num = coeff * h; den = self_scale self * v_max
      in if den = 0 then (if num = 0 then Inl ValueError else Inl OverflowError)
         else let dt = dtype (num / den)
              in Inr (dtype (0.001 * real_of_int (py_int (1000 * dt))))))))"

text \<open>
  The model of the example in the description of the grid: 101 by 101 points at spacing
  10 from the origin, ten absorbing layers, a velocity of 2 everywhere. \<open>no_data_setter\<close>
  stands for an object whose \<^verbatim>\<open>data\<close> cannot be assigned.
\<close>

definition example_args :: Model_args where
  "example_args =
     \<lparr>arg_origin = [0, 0], arg_spacing = [10, 10], arg_shape = [101, 101],
      arg_vp = Array (const_array [101, 101] 2), arg_rho = Number 1, arg_nbpml = 10,
      arg_dm = None, arg_epsilon = None, arg_delta = None, arg_theta = None, arg_phi = None,
      arg_space_order = 8\<rparr>"

definition no_data_setter :: "Function \<Rightarrow> real \<Rightarrow> Function result" where
  "no_data_setter f v = Inl AttributeError"

section \<open>Properties of the Python primitives\<close>

lemma bind_result_Inr [simp]: "bind_result (Inr x) f = f x"
  by (simp add: bind_result_def)

lemma bind_result_Inl [simp]: "bind_result (Inl e) f = Inl e"
  by (simp add: bind_result_def)

lemma succeeds_simps [simp]: "succeeds (Inr x)" "\<not> succeeds (Inl e)"
  by (simp_all add: succeeds_def)

lemma length_2_cases: "length t = 2 \<Longrightarrow> \<exists>a b. t = [a, b]"
  by (cases t; cases "tl t") auto

lemma length_3_cases: "length t = 3 \<Longrightarrow> \<exists>a b c. t = [a, b, c]"
  by (cases t; cases "tl t"; cases "tl (tl t)") auto

section \<open>Properties of the tag encoding\<close>

lemma digit_char_props:
  assumes "d < 10"
  shows "is_digit (digit_char d)" "digit_val (digit_char d) = d"
proof -
  from assms have "d \<in> {0, 1, 2, 3, 4, 5, 6, 7, 8, 9}" by auto
  then show "is_digit (digit_char d)" "digit_val (digit_char d) = d"
    by (auto simp: is_digit_def digit_char_def digit_val_def)
qed

lemma is_digit_plain:
  "is_digit c \<Longrightarrow>
     \<not> is_space c \<and> c \<noteq> CHR ''S'' \<and> c \<noteq> CHR ''_'' \<and> c \<noteq> CHR ''-'' \<and> c \<noteq> CHR ''+''"
  by (auto simp: is_digit_def is_space_def)

lemma digits_of_digits: "list_all is_digit (digits_of n)"
proof (induction n rule: digits_of.induct)
  case (1 n)
  show ?case
  proof (cases "n < 10")
    case True
    then show ?thesis by (subst digits_of.simps) (simp add: digit_char_props)
  next
    case False
    with 1 show ?thesis by (subst digits_of.simps) (simp add: digit_char_props)
  qed
qed

lemma digits_of_nonempty: "digits_of n \<noteq> []"
  by (subst digits_of.simps) simp

lemma nat_of_digits_snoc: "nat_of_digits (ds @ [c]) = 10 * nat_of_digits ds + digit_val c"
  by (simp add: nat_of_digits_def)

lemma nat_of_digits_of: "nat_of_digits (digits_of n) = n"
proof (induction n rule: digits_of.induct)
  case (1 n)
  show ?case
  proof (cases "n < 10")
    case True
    then show ?thesis
      by (subst digits_of.simps) (simp add: nat_of_digits_def digit_char_props)
  next
    case False
    with 1 show ?thesis
      by (subst digits_of.simps) (simp add: nat_of_digits_snoc digit_char_props)
  qed
qed

lemma str_split_no_sep: "sep \<notin> set a \<Longrightarrow> str_split sep a = [a]"
  by (induction a) auto

lemma str_split_append:
  "sep \<notin> set a \<Longrightarrow> str_split sep (a @ sep # rest) = a # str_split sep rest"
  by (induction a) auto

lemma split_two:
  "CHR ''S'' \<notin> set a \<Longrightarrow> CHR ''S'' \<notin> set b \<Longrightarrow>
   str_split CHR ''S'' (a @ CHR ''S'' # b) = [a, b]"
  by (simp add: str_split_append str_split_no_sep)

lemma split_three:
  "CHR ''S'' \<notin> set a \<Longrightarrow> CHR ''S'' \<notin> set b \<Longrightarrow> CHR ''S'' \<notin> set c \<Longrightarrow>
   str_split CHR ''S'' (a @ CHR ''S'' # b @ CHR ''S'' # c) = [a, b, c]"
  by (simp add: str_split_append str_split_no_sep)

lemma str_int_no_S: "CHR ''S'' \<notin> set (str_int i)"
  using digits_of_digits [of "nat (- i)"] digits_of_digits [of "nat i"]
  by (auto simp: str_int_def list_all_iff dest: is_digit_plain)

lemma strip_unpadded:
  assumes "ds \<noteq> []" "\<not> is_space (hd ds)" "\<not> is_space (last ds)"
  shows "strip ds = ds"
proof -
  have "dropWhile is_space ds = ds"
    using assms by (cases ds) auto
  moreover have "dropWhile is_space (rev ds) = rev ds"
    using assms by (cases ds rule: rev_cases) auto
  ultimately show ?thesis
    by (simp add: strip_def)
qed

lemma int_of_str_digits:
  assumes "ds \<noteq> []" "list_all is_digit ds"
  shows "int_of_str ds = Inr (int (nat_of_digits ds))"
    and "int_of_str (CHR ''-'' # ds) = Inr (- int (nat_of_digits ds))"
proof -
  from assms have hd: "is_digit (hd ds)" and lst: "is_digit (last ds)"
    by (auto simp: list_all_iff)
  have us: "CHR ''_'' \<notin> set ds"
    using assms(2) by (auto simp: list_all_iff dest: is_digit_plain)
  have s1: "strip ds = ds"
    using assms(1) hd lst by (intro strip_unpadded) (auto dest: is_digit_plain)
  have s2: "strip (CHR ''-'' # ds) = CHR ''-'' # ds"
    using assms(1) lst by (intro strip_unpadded) (auto simp: is_space_def dest: is_digit_plain)
  have h: "hd ds \<noteq> CHR ''-''" "hd ds \<noteq> CHR ''+''"
    using hd by (auto dest: is_digit_plain)
  show "int_of_str ds = Inr (int (nat_of_digits ds))"
    using assms h us by (simp add: int_of_str_def s1 str_split_no_sep)
  show "int_of_str (CHR ''-'' # ds) = Inr (- int (nat_of_digits ds))"
    using assms us by (simp add: int_of_str_def s2 str_split_no_sep)
qed

lemma int_of_str_str_int: "int_of_str (str_int i) = Inr i"
  by (simp add: str_int_def int_of_str_digits digits_of_nonempty digits_of_digits
      nat_of_digits_of)

lemma float_repr_no_S: "repr_round_trips sf pf x \<Longrightarrow> CHR ''S'' \<notin> set (sf x)"
  by (auto simp: repr_round_trips_def float_repr_chars_def)

lemma convert_int_round_trip:
  assumes "length t = 2 \<or> length t = 3"
  shows "bind_result (convert_to_string str_int t) convert_int_from_string = Inr t"
  using assms
proof
  assume "length t = 2"
  then obtain a b where t: "t = [a, b]" using length_2_cases by blast
  show ?thesis
    by (simp add: t convert_to_string_def convert_int_from_string_def getitem_def
        split_two str_int_no_S int_of_str_str_int)
next
  assume "length t = 3"
  then obtain a b c where t: "t = [a, b, c]" using length_3_cases by blast
  show ?thesis
    by (simp add: t convert_to_string_def convert_int_from_string_def getitem_def
        split_three str_int_no_S int_of_str_str_int)
qed

lemma convert_float_round_trip:
  assumes "length t = 2 \<or> length t = 3" and "list_all (repr_round_trips sf pf) t"
  shows "bind_result (convert_to_string sf t) (convert_float_from_string pf) = Inr t"
  using assms(1)
proof
  assume "length t = 2"
  then obtain a b where t: "t = [a, b]" using length_2_cases by blast
  with assms(2) have r: "repr_round_trips sf pf a" "repr_round_trips sf pf b" by simp_all
  then have p: "pf (sf a) = Inr a" "pf (sf b) = Inr b"
    by (simp_all add: repr_round_trips_def)
  show ?thesis
    by (simp add: t convert_to_string_def convert_float_from_string_def getitem_def
        split_two float_repr_no_S [OF r(1)] float_repr_no_S [OF r(2)] p)
next
  assume "length t = 3"
  then obtain a b c where t: "t = [a, b, c]" using length_3_cases by blast
  with assms(2) have r: "repr_round_trips sf pf a" "repr_round_trips sf pf b"
      "repr_round_trips sf pf c"
    by simp_all
  then have p: "pf (sf a) = Inr a" "pf (sf b) = Inr b" "pf (sf c) = Inr c"
    by (simp_all add: repr_round_trips_def)
  show ?thesis
    by (simp add: t convert_to_string_def convert_float_from_string_def getitem_def
        split_three float_repr_no_S [OF r(1)] float_repr_no_S [OF r(2)]
        float_repr_no_S [OF r(3)] p)
qed

text \<open>
  Claim C10. For every tuple \<open>t\<close> of two or three integers, decoding the tag string
  that \<^verbatim>\<open>convert_to_string\<close> builds gives back \<open>t\<close>; and for every tuple of two or three
  floats each of which prints to a string that parses back to it, decoding with
  \<^verbatim>\<open>convert_float_from_string\<close> gives back the tuple. The \<^verbatim>\<open>S\<close>-separated encoding of
  shape, origin and spacing is therefore invertible.
\<close>

theorem tag_encoding_round_trip:
  "(length t = 2 \<or> length t = 3 \<longrightarrow>
      bind_result (convert_to_string str_int t) convert_int_from_string = Inr t) \<and>
   ((length u = 2 \<or> length u = 3) \<and> list_all (repr_round_trips str_float py_float) u \<longrightarrow>
      bind_result (convert_to_string str_float u) (convert_float_from_string py_float) = Inr u)"
  using convert_int_round_trip [of t] convert_float_round_trip [of u str_float py_float]
  by blast

theorem tag_encoding_round_trip_witness:
  "bind_result (convert_to_string str_int [101, -7, 0]) convert_int_from_string
     = Inr [101, -7, 0] \<and>
   bind_result (convert_to_string str_int [121, 121]) (convert_float_from_string int_of_str)
     = Inr [121, 121]"
proof -
  have "set (str_int 121) \<subseteq> float_repr_chars"
    by (simp add: float_repr_chars_def str_int_def digits_of.simps digit_char_def)
  then have r: "list_all (repr_round_trips str_int int_of_str) [121, 121]"
    by (simp add: repr_round_trips_def int_of_str_str_int)
  show ?thesis
    using tag_encoding_round_trip [of "[101, -7, 0]" "[121, 121]" str_int int_of_str] r
    by simp
qed

section \<open>Properties of arrays\<close>

lemma ravel_less: "in_bounds sh idx \<Longrightarrow> ravel sh idx < prod_list sh"
proof (induction sh idx rule: ravel.induct)
  case (1 n ns i js)
  then have i: "i < n" and r: "ravel ns js < prod_list ns"
    by (simp_all add: in_bounds_def)
  have "i * prod_list ns + ravel ns js < i * prod_list ns + prod_list ns"
    using r by simp
  also have "\<dots> = Suc i * prod_list ns" by simp
  also have "\<dots> \<le> n * prod_list ns"
    using i by (intro mult_le_mono1) simp
  finally show ?case by simp
qed (simp_all add: in_bounds_def)

lemma unravel_ravel: "in_bounds sh idx \<Longrightarrow> unravel sh (ravel sh idx) = idx"
proof (induction sh idx rule: ravel.induct)
  case (1 n ns i js)
  then have r: "ravel ns js < prod_list ns" and ih: "unravel ns (ravel ns js) = js"
    by (simp_all add: in_bounds_def ravel_less)
  then show ?case by simp
qed (simp_all add: in_bounds_def)

lemma item_tabulate: "in_bounds sh idx \<Longrightarrow> item (tabulate sh f) idx = f idx"
  by (simp add: item_def tabulate_def ravel_less unravel_ravel)

lemma shape_tabulate [simp]: "shape (tabulate sh f) = sh"
  by (simp add: tabulate_def)

lemma in_bounds_Cons [simp]:
  "in_bounds (n # ns) (i # js) \<longleftrightarrow> i < n \<and> in_bounds ns js"
  by (simp add: in_bounds_def)

lemma in_bounds_Nil [simp]: "in_bounds [] []"
  by (simp add: in_bounds_def)

lemma np_zeros_eq:
  "list_all (\<lambda>d. 0 \<le> d) dims \<Longrightarrow> np_zeros dims = Inr (const_array (map nat dims) 0)"
  by (auto simp: np_zeros_def np_full_def list_ex_iff list_all_iff)

lemma shape_const_array [simp]: "shape (const_array sh v) = sh"
  by (simp add: const_array_def)

lemma item_const_array: "in_bounds sh idx \<Longrightarrow> item (const_array sh v) idx = v"
  using ravel_less [of sh idx] by (simp add: item_def const_array_def)

lemma concat3_axis0:
  assumes "shape a = la # rest" "shape g = lg # rest" "shape c = lc # rest"
  shows "np_concatenate [a, g, c] 0 = Inr (tabulate ((la + lg + lc) # rest) (concat_item 0 a [g, c]))"
  by (simp add: np_concatenate_def assms add.assoc)


section \<open>The gradient embedding as three blocks\<close>

lemma extent_gradient_2d:
  fixes g :: "('a::zero) ndarray"
  assumes sf: "shape_full = [int n_full, int nz]"
    and l: "left_offset origin_full origin_sub spacing 0 = Inr (int nx_left)"
    and ss: "getitem shape_sub 0 = Inr (int n_sub)"
    and fit: "nx_left + n_sub \<le> n_full"
    and g: "shape g = [n_sub, nz]"
  shows "\<exists>r. extent_gradient shape_full origin_full shape_sub origin_sub spacing g = Inr r \<and>
           shape r = [n_full, nz] \<and>
           (\<forall>i k. i < n_full \<and> k < nz \<longrightarrow>
              item r [i, k] = (if nx_left \<le> i \<and> i < nx_left + n_sub
                               then item g [i - nx_left, k] else 0))"
proof -
  define nr where "nr = n_full - n_sub - nx_left"
  define b1 :: "'a ndarray" where "b1 = const_array [nx_left, nz] 0"
  define b2 :: "'a ndarray" where "b2 = const_array [nr, nz] 0"
  let ?r = "tabulate [nx_left + n_sub + nr, nz] (concat_item 0 b1 [g, b2])"
  have gf: "getitem shape_full 0 = Inr (int n_full)" "getitem shape_full (- 1) = Inr (int nz)"
    by (simp_all add: sf getitem_def)
  have r: "right_offset shape_full shape_sub (int nx_left) 0 = Inr (int nr)"
    using fit by (simp add: right_offset_def gf ss nr_def)
  have z1: "np_zeros [int nx_left, int nz] = Inr b1"
    using np_zeros_eq [of "[int nx_left, int nz]"] by (simp add: b1_def)
  have z2: "np_zeros [int nr, int nz] = Inr b2"
    using np_zeros_eq [of "[int nr, int nz]"] by (simp add: b2_def)
  have c: "np_concatenate [b1, g, b2] 0 = Inr ?r"
    by (rule concat3_axis0) (simp_all add: g b1_def b2_def)
  have "length shape_full = 2"
    by (simp add: sf)
  then have e: "extent_gradient shape_full origin_full shape_sub origin_sub spacing g = Inr ?r"
    by (simp add: extent_gradient_def l r gf z1 z2 c)
  have sh: "shape ?r = [n_full, nz]"
    using fit by (simp add: nr_def)
  have it: "item ?r [i, k] = (if nx_left \<le> i \<and> i < nx_left + n_sub
                               then item g [i - nx_left, k] else 0)"
    if "i < n_full" "k < nz" for i k
  proof -
    have "item ?r [i, k] = concat_item 0 b1 [g, b2] [i, k]"
      using that fit by (intro item_tabulate) (simp add: nr_def)
    also have "\<dots> = (if nx_left \<le> i \<and> i < nx_left + n_sub
                               then item g [i - nx_left, k] else 0)"
      using that fit item_const_array [of "[nx_left, nz]" "[i, k]" "0::'a"]
        item_const_array [of "[nr, nz]" "[i - nx_left - n_sub, k]" "0::'a"]
      by (auto simp: g b1_def b2_def nr_def)
    finally show ?thesis .
  qed
  show ?thesis
    using e sh it by blast
qed



section \<open>Properties of the aperture restriction\<close>

lemma py_int_nonneg: "0 \<le> x \<Longrightarrow> py_int x = \<lfloor>x\<rfloor>"
  by (simp add: py_int_def)

lemma slice_indices_inside:
  "0 \<le> a \<Longrightarrow> a \<le> b \<Longrightarrow> b \<le> int n \<Longrightarrow> slice_indices a b n = (nat a, nat b)"
  by (simp add: slice_indices_def Let_def max_def min_def)

lemma np_slice_2d:
  assumes "shape m = [n0, n1]" "0 \<le> a" "a \<le> b" "b \<le> int n0"
  shows "np_slice m [Slice a b, Colon]
           = Inr (tabulate [nat b - nat a, n1] (\<lambda>idx. item m (map2 (+) [nat a, 0] idx)))"
  using assms by (simp add: np_slice_def slice_ranges_def slice_indices_inside)

lemma np_slice_3d:
  assumes "shape m = [n0, n1, n2]" "0 \<le> a" "a \<le> b" "b \<le> int n0"
    "0 \<le> c" "c \<le> d" "d \<le> int n1"
  shows "np_slice m [Slice a b, Slice c d, Colon]
           = Inr (tabulate [nat b - nat a, nat d - nat c, n2]
                    (\<lambda>idx. item m (map2 (+) [nat a, nat c, 0] idx)))"
  using assms by (simp add: np_slice_def slice_ranges_def slice_indices_inside)

lemma coordinate_range_eq:
  "s \<noteq> [] \<Longrightarrow> g \<noteq> [] \<Longrightarrow>
   coordinate_range s g
     = Inr (min (Min (set s)) (Min (set g)), max (Max (set s)) (Max (set g)))"
  by (simp add: coordinate_range_def np_min_def np_max_def)

lemma restrict_2d:
  assumes m: "shape m = [n0, n1]"
    and sp: "spacing = [d0, d1]" and org: "origin = [o0, oz]"
    and d0: "d0 \<noteq> 0"
    and ne: "sx \<noteq> []" "gx \<noteq> []" and y: "y_coordinates_ok sy gy"
    and min_x: "min_x = max o0 (min (Min (set sx)) (Min (set gx)) - buffer_size)"
    and max_x: "max_x = min (o0 + (real n0 - 1) * d0)
                            (max (Max (set sx)) (Max (set gx)) + buffer_size)"
  shows "restrict_model_to_receiver_grid sx gx m spacing origin sy gy buffer_size
           = bind_result
               (np_slice m [Slice (py_int (min_x / d0)) (py_int (max_x / d0) + 1), Colon])
               (\<lambda>m'. Inr (m', shape m', [real_of_int (py_int (min_x / d0)) * d0, oz]))"
proof -
  have ds: "domain_extent [n0, n1] spacing 0 = Inr ((real n0 - 1) * d0)"
      "domain_extent [n0, n1] spacing 1 = Inr ((real n1 - 1) * d1)"
    by (simp_all add: domain_extent_def sp getitem_def)
  have ab: "add_buffer origin [(real n0 - 1) * d0, (real n1 - 1) * d1] 0
              buffer_size (min (Min (set sx)) (Min (set gx)), max (Max (set sx)) (Max (set gx)))
            = Inr (min_x, max_x)"
    by (simp add: add_buffer_def org getitem_def min_x max_x)
  have ir: "index_range spacing 0 (min_x, max_x)
              = Inr (py_int (min_x / d0), py_int (max_x / d0))"
    using d0 by (simp add: index_range_def sp getitem_def np_int_quot_def)
  have g: "getitem spacing 0 = Inr d0" "getitem origin (- 1) = Inr oz"
    by (simp_all add: sp org getitem_def)
  obtain yr where yr: "(case (sy, gy) of
           (Some sy', Some gy') \<Rightarrow> bind_result (coordinate_range sy' gy') (\<lambda>r. Inr (Some r))
         | _ \<Rightarrow> Inr None) = Inr yr"
    using y by (auto simp: y_coordinates_ok_def coordinate_range_eq split: option.splits)
  show ?thesis
    unfolding restrict_model_to_receiver_grid_def Let_def yr
    by (simp add: m ds coordinate_range_eq ne ab ir g)
qed


lemma restrict_3d:
  assumes m: "shape m = [n0, n1, n2]"
    and sp: "spacing = [d0, d1, d2]" and org: "origin = [o0, o1, oz]"
    and d: "d0 \<noteq> 0" "d1 \<noteq> 0"
    and ne: "sx \<noteq> []" "gx \<noteq> []" "sy = Some sy'" "gy = Some gy'" "sy' \<noteq> []" "gy' \<noteq> []"
    and min_x: "min_x = max o0 (min (Min (set sx)) (Min (set gx)) - buffer_size)"
    and max_x: "max_x = min (o0 + (real n0 - 1) * d0)
                            (max (Max (set sx)) (Max (set gx)) + buffer_size)"
    and min_y: "min_y = max o1 (min (Min (set sy')) (Min (set gy')) - buffer_size)"
    and max_y: "max_y = min (o1 + (real n1 - 1) * d1)
                            (max (Max (set sy')) (Max (set gy')) + buffer_size)"
  shows "restrict_model_to_receiver_grid sx gx m spacing origin sy gy buffer_size
           = bind_result
               (np_slice m [Slice (py_int (min_x / d0)) (py_int (max_x / d0) + 1),
                            Slice (py_int (min_y / d1)) (py_int (max_y / d1) + 1), Colon])
               (\<lambda>m'. Inr (m', shape m', [real_of_int (py_int (min_x / d0)) * d0,
                                         real_of_int (py_int (min_y / d1)) * d1, oz]))"
proof -
  let ?ds = "[(real n0 - 1) * d0, (real n1 - 1) * d1, (real n2 - 1) * d2]"
  have ds: "domain_extent [n0, n1, n2] spacing 0 = Inr ((real n0 - 1) * d0)"
      "domain_extent [n0, n1, n2] spacing 1 = Inr ((real n1 - 1) * d1)"
      "domain_extent [n0, n1, n2] spacing 2 = Inr ((real n2 - 1) * d2)"
    by (simp_all add: domain_extent_def sp getitem_def)
  have abx: "add_buffer origin ?ds 0
              buffer_size (min (Min (set sx)) (Min (set gx)), max (Max (set sx)) (Max (set gx)))
            = Inr (min_x, max_x)"
    by (simp add: add_buffer_def org getitem_def min_x max_x)
  have aby: "add_buffer origin ?ds 1
              buffer_size (min (Min (set sy')) (Min (set gy')), max (Max (set sy')) (Max (set gy')))
            = Inr (min_y, max_y)"
    by (simp add: add_buffer_def org getitem_def min_y max_y)
  have ir: "index_range spacing 0 (min_x, max_x)
              = Inr (py_int (min_x / d0), py_int (max_x / d0))"
      "index_range spacing 1 (min_y, max_y)
              = Inr (py_int (min_y / d1), py_int (max_y / d1))"
    using d by (simp_all add: index_range_def sp getitem_def np_int_quot_def)
  have g: "getitem spacing 0 = Inr d0" "getitem spacing 1 = Inr d1"
      "getitem origin (- 1) = Inr oz"
    by (simp_all add: sp org getitem_def)
  show ?thesis
    unfolding restrict_model_to_receiver_grid_def Let_def
    by (simp add: m ds coordinate_range_eq ne abx aby ir g)
qed

lemma floor_cell:
  fixes x d :: real
  assumes "0 < d"
  shows "real_of_int \<lfloor>x / d\<rfloor> * d \<le> x" and "x - d < real_of_int \<lfloor>x / d\<rfloor> * d"
proof -
  have "real_of_int \<lfloor>x / d\<rfloor> * d \<le> (x / d) * d"
    using assms by (intro mult_right_mono) simp_all
  then show "real_of_int \<lfloor>x / d\<rfloor> * d \<le> x"
    using assms by simp
  have "x / d < real_of_int \<lfloor>x / d\<rfloor> + 1"
    by linarith
  then have "(x / d) * d < (real_of_int \<lfloor>x / d\<rfloor> + 1) * d"
    using assms by (intro mult_strict_right_mono)
  then have "x < (real_of_int \<lfloor>x / d\<rfloor> + 1) * d"
    using assms by simp
  then show "x - d < real_of_int \<lfloor>x / d\<rfloor> * d"
    by (simp add: algebra_simps)
qed

text \<open>One restricted axis: the index range of the aperture \<open>[lo, hi]\<close> inside a grid that
  starts at coordinate 0.\<close>

lemma aperture_axis:
  fixes lo hi d :: real
  assumes d: "0 < d" and lo: "0 \<le> lo" and le: "lo \<le> hi" and hi: "hi \<le> (real n - 1) * d"
  defines "a \<equiv> py_int (lo / d)" and "b \<equiv> py_int (hi / d)"
  shows "0 \<le> a" "a \<le> b + 1" "b + 1 \<le> int n"
    "nat (b + 1) - nat a = nat (b - a) + 1"
    "real_of_int a * d \<le> lo"
    "hi - d < real_of_int a * d + (real (nat (b - a) + 1) - 1) * d"
    "real_of_int a * d + (real (nat (b - a) + 1) - 1) * d \<le> hi"
proof -
  have a: "a = \<lfloor>lo / d\<rfloor>" and b: "b = \<lfloor>hi / d\<rfloor>"
    using d lo le by (simp_all add: a_def b_def py_int_nonneg)
  show a0: "0 \<le> a"
    using d lo by (simp add: a)
  have ab: "a \<le> b"
    unfolding a b using d le by (intro floor_mono) (simp add: divide_right_mono)
  then show "a \<le> b + 1" by simp
  have "hi / d \<le> real n - 1"
    using d hi by (simp add: pos_divide_le_eq)
  then have "b \<le> \<lfloor>real n - 1\<rfloor>"
    unfolding b by (rule floor_mono)
  also have "\<dots> = int n - 1"
    by (metis floor_diff_one floor_of_nat)
  finally show bn: "b + 1 \<le> int n" by simp
  show "nat (b + 1) - nat a = nat (b - a) + 1"
    using a0 ab by linarith
  show "real_of_int a * d \<le> lo"
    unfolding a using d by (rule floor_cell)
  have eq: "real_of_int a * d + (real (nat (b - a) + 1) - 1) * d = real_of_int b * d"
    using ab by (simp add: algebra_simps)
  have hb: "real_of_int b * d \<le> hi" "hi - d < real_of_int b * d"
    unfolding b using d by (rule floor_cell)+
  show "hi - d < real_of_int a * d + (real (nat (b - a) + 1) - 1) * d"
    using eq hb by linarith
  show "real_of_int a * d + (real (nat (b - a) + 1) - 1) * d \<le> hi"
    using eq hb by linarith
qed

lemma restrict_2d_origin0:
  assumes m: "shape m = [n0, n1]"
    and sp: "spacing = [d0, d1]" and org: "origin = [0, oz]"
    and d0: "0 < d0"
    and ne: "sx \<noteq> []" "gx \<noteq> []" and y: "y_coordinates_ok sy gy"
    and min_x: "min_x = max 0 (min (Min (set sx)) (Min (set gx)) - buffer_size)"
    and max_x: "max_x = min ((real n0 - 1) * d0)
                            (max (Max (set sx)) (Max (set gx)) + buffer_size)"
    and le: "min_x \<le> max_x"
  defines "a \<equiv> py_int (min_x / d0)" and "b \<equiv> py_int (max_x / d0)"
  shows "restrict_model_to_receiver_grid sx gx m spacing origin sy gy buffer_size
           = Inr (tabulate [nat (b - a) + 1, n1] (\<lambda>idx. item m (map2 (+) [nat a, 0] idx)),
                  [nat (b - a) + 1, n1], [real_of_int a * d0, oz])"
proof -
  have lo: "0 \<le> min_x" and hi: "max_x \<le> (real n0 - 1) * d0"
    by (simp_all add: min_x max_x)
  note ax = aperture_axis [OF d0 lo le hi, folded a_def b_def]
  have "restrict_model_to_receiver_grid sx gx m spacing origin sy gy buffer_size
           = bind_result (np_slice m [Slice a (b + 1), Colon])
               (\<lambda>m'. Inr (m', shape m', [real_of_int a * d0, oz]))"
    unfolding a_def b_def
    by (rule restrict_2d [OF m sp org _ ne y]) (use d0 in \<open>simp_all add: min_x max_x\<close>)
  also have "np_slice m [Slice a (b + 1), Colon]
      = Inr (tabulate [nat (b + 1) - nat a, n1] (\<lambda>idx. item m (map2 (+) [nat a, 0] idx)))"
    by (rule np_slice_2d [OF m ax(1) ax(2) ax(3)])
  finally show ?thesis
    by (simp add: ax(4))
qed


lemma restrict_3d_origin0:
  assumes m: "shape m = [n0, n1, n2]"
    and sp: "spacing = [d0, d1, d2]" and org: "origin = [0, 0, oz]"
    and d: "0 < d0" "0 < d1"
    and ne: "sx \<noteq> []" "gx \<noteq> []" "sy = Some sy'" "gy = Some gy'" "sy' \<noteq> []" "gy' \<noteq> []"
    and min_x: "min_x = max 0 (min (Min (set sx)) (Min (set gx)) - buffer_size)"
    and max_x: "max_x = min ((real n0 - 1) * d0)
                            (max (Max (set sx)) (Max (set gx)) + buffer_size)"
    and min_y: "min_y = max 0 (min (Min (set sy')) (Min (set gy')) - buffer_size)"
    and max_y: "max_y = min ((real n1 - 1) * d1)
                            (max (Max (set sy')) (Max (set gy')) + buffer_size)"
    and le: "min_x \<le> max_x" "min_y \<le> max_y"
  defines "a \<equiv> py_int (min_x / d0)" and "b \<equiv> py_int (max_x / d0)"
    and "c \<equiv> py_int (min_y / d1)" and "e \<equiv> py_int (max_y / d1)"
  shows "restrict_model_to_receiver_grid sx gx m spacing origin sy gy buffer_size
           = Inr (tabulate [nat (b - a) + 1, nat (e - c) + 1, n2]
                    (\<lambda>idx. item m (map2 (+) [nat a, nat c, 0] idx)),
                  [nat (b - a) + 1, nat (e - c) + 1, n2],
                  [real_of_int a * d0, real_of_int c * d1, oz])"
proof -
  have lo: "0 \<le> min_x" "0 \<le> min_y"
    and hi: "max_x \<le> (real n0 - 1) * d0" "max_y \<le> (real n1 - 1) * d1"
    by (simp_all add: min_x max_x min_y max_y)
  note ax = aperture_axis [OF d(1) lo(1) le(1) hi(1), folded a_def b_def]
  note ay = aperture_axis [OF d(2) lo(2) le(2) hi(2), folded c_def e_def]
  have "restrict_model_to_receiver_grid sx gx m spacing origin sy gy buffer_size
           = bind_result (np_slice m [Slice a (b + 1), Slice c (e + 1), Colon])
               (\<lambda>m'. Inr (m', shape m', [real_of_int a * d0, real_of_int c * d1, oz]))"
    unfolding a_def b_def c_def e_def
    by (rule restrict_3d [OF m sp org _ _ ne])
      (use d in \<open>simp_all add: min_x max_x min_y max_y\<close>)
  also have "np_slice m [Slice a (b + 1), Slice c (e + 1), Colon]
      = Inr (tabulate [nat (b + 1) - nat a, nat (e + 1) - nat c, n2]
               (\<lambda>idx. item m (map2 (+) [nat a, nat c, 0] idx)))"
    by (rule np_slice_3d [OF m ax(1) ax(2) ax(3) ay(1) ay(2) ay(3)])
  finally show ?thesis
    by (simp add: ax(4) ay(4))
qed

text \<open>
  Claim C3, as amended. For a model whose restricted axes start at coordinate 0, with
  positive spacing and a non-empty aperture \<open>[min_x, max_x]\<close> (the source and receiver
  coordinates widened by the buffer and clipped to the domain), the returned sub-domain
  starts at the grid point \<open>\<lfloor>min_x / d\<rfloor> * d \<le> min_x\<close> and ends at the grid point
  \<open>\<lfloor>max_x / d\<rfloor> * d\<close>, which is at most \<open>max_x\<close> and less than one spacing below it: the
  lower side is covered in full, the upper side up to the last grid point inside the
  aperture. The same holds for the y axis of a three-axis model. For a source at 0,
  receivers at 0, 100 and 500, a buffer of 50 and a domain extent of 1000 the aperture is
  \<open>[0, 550]\<close>.
\<close>

theorem restrict_covers_aperture:
  "(shape m = [n0, n1] \<and> spacing = [d0, d1] \<and> origin = [0, oz] \<and> 0 < d0 \<and>
    sx \<noteq> [] \<and> gx \<noteq> [] \<and> y_coordinates_ok sy gy \<and>
    min_x = max 0 (min (Min (set sx)) (Min (set gx)) - buffer_size) \<and>
    max_x = min ((real n0 - 1) * d0) (max (Max (set sx)) (Max (set gx)) + buffer_size) \<and>
    min_x \<le> max_x \<longrightarrow>
    (\<exists>m' nx ox.
       restrict_model_to_receiver_grid sx gx m spacing origin sy gy buffer_size
         = Inr (m', [nx, n1], [ox, oz]) \<and> shape m' = [nx, n1] \<and>
       ox = real_of_int \<lfloor>min_x / d0\<rfloor> * d0 \<and>
       nx = nat (\<lfloor>max_x / d0\<rfloor> - \<lfloor>min_x / d0\<rfloor>) + 1 \<and>
       ox \<le> min_x \<and> max_x - d0 < ox + (real nx - 1) * d0 \<and> ox + (real nx - 1) * d0 \<le> max_x))
   \<and>
   (shape m3 = [n0, n1, n2] \<and> spacing3 = [d0, d1, d2] \<and> origin3 = [0, 0, oz] \<and>
    0 < d0 \<and> 0 < d1 \<and> sx \<noteq> [] \<and> gx \<noteq> [] \<and> sy' \<noteq> [] \<and> gy' \<noteq> [] \<and>
    min_x = max 0 (min (Min (set sx)) (Min (set gx)) - buffer_size) \<and>
    max_x = min ((real n0 - 1) * d0) (max (Max (set sx)) (Max (set gx)) + buffer_size) \<and>
    min_y = max 0 (min (Min (set sy')) (Min (set gy')) - buffer_size) \<and>
    max_y = min ((real n1 - 1) * d1) (max (Max (set sy')) (Max (set gy')) + buffer_size) \<and>
    min_x \<le> max_x \<and> min_y \<le> max_y \<longrightarrow>
    (\<exists>m' nx ny ox oy.
       restrict_model_to_receiver_grid sx gx m3 spacing3 origin3 (Some sy') (Some gy') buffer_size
         = Inr (m', [nx, ny, n2], [ox, oy, oz]) \<and> shape m' = [nx, ny, n2] \<and>
       ox = real_of_int \<lfloor>min_x / d0\<rfloor> * d0 \<and>
       nx = nat (\<lfloor>max_x / d0\<rfloor> - \<lfloor>min_x / d0\<rfloor>) + 1 \<and>
       oy = real_of_int \<lfloor>min_y / d1\<rfloor> * d1 \<and>
       ny = nat (\<lfloor>max_y / d1\<rfloor> - \<lfloor>min_y / d1\<rfloor>) + 1 \<and>
       ox \<le> min_x \<and> max_x - d0 < ox + (real nx - 1) * d0 \<and> ox + (real nx - 1) * d0 \<le> max_x \<and>
       oy \<le> min_y \<and> max_y - d1 < oy + (real ny - 1) * d1 \<and> oy + (real ny - 1) * d1 \<le> max_y))
   \<and>
   bind_result (coordinate_range [0] [0, 100, 500]) (add_buffer [0, oz] [1000, e1] 0 50)
     = Inr (0, 550)"
proof (intro conjI impI)
  assume h: "shape m = [n0, n1] \<and> spacing = [d0, d1] \<and> origin = [0, oz] \<and> 0 < d0 \<and>
    sx \<noteq> [] \<and> gx \<noteq> [] \<and> y_coordinates_ok sy gy \<and>
    min_x = max 0 (min (Min (set sx)) (Min (set gx)) - buffer_size) \<and>
    max_x = min ((real n0 - 1) * d0) (max (Max (set sx)) (Max (set gx)) + buffer_size) \<and>
    min_x \<le> max_x"
  then have m: "shape m = [n0, n1]" and sp: "spacing = [d0, d1]" and org: "origin = [0, oz]"
    and d0: "0 < d0" and ne: "sx \<noteq> []" "gx \<noteq> []" and y: "y_coordinates_ok sy gy"
    and min_x: "min_x = max 0 (min (Min (set sx)) (Min (set gx)) - buffer_size)"
    and max_x: "max_x = min ((real n0 - 1) * d0)
                            (max (Max (set sx)) (Max (set gx)) + buffer_size)"
    and le: "min_x \<le> max_x"
    by blast+
  have lo: "0 \<le> min_x" and hi: "max_x \<le> (real n0 - 1) * d0"
    by (simp_all add: min_x max_x)
  have fl: "py_int (min_x / d0) = \<lfloor>min_x / d0\<rfloor>" "py_int (max_x / d0) = \<lfloor>max_x / d0\<rfloor>"
    using lo le d0 by (simp_all add: py_int_nonneg)
  note ax = aperture_axis [OF d0 lo le hi, unfolded fl]
  have "restrict_model_to_receiver_grid sx gx m spacing origin sy gy buffer_size
      = Inr (tabulate [nat (\<lfloor>max_x / d0\<rfloor> - \<lfloor>min_x / d0\<rfloor>) + 1, n1]
               (\<lambda>idx. item m (map2 (+) [nat \<lfloor>min_x / d0\<rfloor>, 0] idx)),
             [nat (\<lfloor>max_x / d0\<rfloor> - \<lfloor>min_x / d0\<rfloor>) + 1, n1],
             [real_of_int \<lfloor>min_x / d0\<rfloor> * d0, oz])"
    using restrict_2d_origin0 [OF m sp org d0 ne y min_x max_x le] by (simp only: fl)
  then show "\<exists>m' nx ox.
       restrict_model_to_receiver_grid sx gx m spacing origin sy gy buffer_size
         = Inr (m', [nx, n1], [ox, oz]) \<and> shape m' = [nx, n1] \<and>
       ox = real_of_int \<lfloor>min_x / d0\<rfloor> * d0 \<and>
       nx = nat (\<lfloor>max_x / d0\<rfloor> - \<lfloor>min_x / d0\<rfloor>) + 1 \<and>
       ox \<le> min_x \<and> max_x - d0 < ox + (real nx - 1) * d0 \<and> ox + (real nx - 1) * d0 \<le> max_x"
    using ax(5,6,7) by (intro exI conjI) (assumption | simp)+
next
  assume h: "shape m3 = [n0, n1, n2] \<and> spacing3 = [d0, d1, d2] \<and> origin3 = [0, 0, oz] \<and>
    0 < d0 \<and> 0 < d1 \<and> sx \<noteq> [] \<and> gx \<noteq> [] \<and> sy' \<noteq> [] \<and> gy' \<noteq> [] \<and>
    min_x = max 0 (min (Min (set sx)) (Min (set gx)) - buffer_size) \<and>
    max_x = min ((real n0 - 1) * d0) (max (Max (set sx)) (Max (set gx)) + buffer_size) \<and>
    min_y = max 0 (min (Min (set sy')) (Min (set gy')) - buffer_size) \<and>
    max_y = min ((real n1 - 1) * d1) (max (Max (set sy')) (Max (set gy')) + buffer_size) \<and>
    min_x \<le> max_x \<and> min_y \<le> max_y"
  then have m: "shape m3 = [n0, n1, n2]" and sp: "spacing3 = [d0, d1, d2]"
    and org: "origin3 = [0, 0, oz]"
    and d: "0 < d0" "0 < d1"
    and ne: "sx \<noteq> []" "gx \<noteq> []" "sy' \<noteq> []" "gy' \<noteq> []"
    and min_x: "min_x = max 0 (min (Min (set sx)) (Min (set gx)) - buffer_size)"
    and max_x: "max_x = min ((real n0 - 1) * d0)
                            (max (Max (set sx)) (Max (set gx)) + buffer_size)"
    and min_y: "min_y = max 0 (min (Min (set sy')) (Min (set gy')) - buffer_size)"
    and max_y: "max_y = min ((real n1 - 1) * d1)
                            (max (Max (set sy')) (Max (set gy')) + buffer_size)"
    and le: "min_x \<le> max_x" "min_y \<le> max_y"
    by blast+
  have lo: "0 \<le> min_x" "0 \<le> min_y"
    and hi: "max_x \<le> (real n0 - 1) * d0" "max_y \<le> (real n1 - 1) * d1"
    by (simp_all add: min_x max_x min_y max_y)
  have fl: "py_int (min_x / d0) = \<lfloor>min_x / d0\<rfloor>" "py_int (max_x / d0) = \<lfloor>max_x / d0\<rfloor>"
    "py_int (min_y / d1) = \<lfloor>min_y / d1\<rfloor>" "py_int (max_y / d1) = \<lfloor>max_y / d1\<rfloor>"
    using lo le d by (simp_all add: py_int_nonneg)
  note ax = aperture_axis [OF d(1) lo(1) le(1) hi(1), unfolded fl]
  note ay = aperture_axis [OF d(2) lo(2) le(2) hi(2), unfolded fl]
  have "restrict_model_to_receiver_grid sx gx m3 spacing3 origin3 (Some sy') (Some gy') buffer_size
      = Inr (tabulate [nat (\<lfloor>max_x / d0\<rfloor> - \<lfloor>min_x / d0\<rfloor>) + 1,
                       nat (\<lfloor>max_y / d1\<rfloor> - \<lfloor>min_y / d1\<rfloor>) + 1, n2]
               (\<lambda>idx. item m3 (map2 (+) [nat \<lfloor>min_x / d0\<rfloor>, nat \<lfloor>min_y / d1\<rfloor>, 0] idx)),
             [nat (\<lfloor>max_x / d0\<rfloor> - \<lfloor>min_x / d0\<rfloor>) + 1,
              nat (\<lfloor>max_y / d1\<rfloor> - \<lfloor>min_y / d1\<rfloor>) + 1, n2],
             [real_of_int \<lfloor>min_x / d0\<rfloor> * d0, real_of_int \<lfloor>min_y / d1\<rfloor> * d1, oz])"
    using restrict_3d_origin0 [OF m sp org d ne(1,2) refl refl ne(3,4) min_x max_x min_y max_y le]
    by (simp only: fl)
  then show "\<exists>m' nx ny ox oy.
       restrict_model_to_receiver_grid sx gx m3 spacing3 origin3 (Some sy') (Some gy') buffer_size
         = Inr (m', [nx, ny, n2], [ox, oy, oz]) \<and> shape m' = [nx, ny, n2] \<and>
       ox = real_of_int \<lfloor>min_x / d0\<rfloor> * d0 \<and>
       nx = nat (\<lfloor>max_x / d0\<rfloor> - \<lfloor>min_x / d0\<rfloor>) + 1 \<and>
       oy = real_of_int \<lfloor>min_y / d1\<rfloor> * d1 \<and>
       ny = nat (\<lfloor>max_y / d1\<rfloor> - \<lfloor>min_y / d1\<rfloor>) + 1 \<and>
       ox \<le> min_x \<and> max_x - d0 < ox + (real nx - 1) * d0 \<and> ox + (real nx - 1) * d0 \<le> max_x \<and>
       oy \<le> min_y \<and> max_y - d1 < oy + (real ny - 1) * d1 \<and> oy + (real ny - 1) * d1 \<le> max_y"
    using ax(5,6,7) ay(5,6,7) by (intro exI conjI) (assumption | simp)+
next
  show "bind_result (coordinate_range [0] [0, 100, 500]) (add_buffer [0, oz] [1000, e1] 0 50)
     = Inr (0, 550)"
    by (simp add: coordinate_range_def np_min_def np_max_def add_buffer_def getitem_def)
qed

text \<open>The example of the claim on a grid of spacing 10: 56 points from 0 to 550.\<close>

theorem restrict_covers_aperture_witness:
  "(\<exists>m'. restrict_model_to_receiver_grid [0] [0, 100, 500] (const_array [101, 51] (0::real))
            [10, 10] [0, 0] None None 50 = Inr (m', [56, 51], [0, 0])) \<and>
   (\<exists>m'. restrict_model_to_receiver_grid [0] [0, 100, 500] (const_array [101, 51, 11] (0::real))
            [10, 10, 10] [0, 0, 0] (Some [20]) (Some [20, 230]) 50
          = Inr (m', [56, 29, 11], [0, 0, 0]))"
proof -
  note t = restrict_covers_aperture [where m = "const_array [101, 51] (0::real)"
      and ?n0.0 = 101 and ?n1.0 = 51 and spacing = "[10, 10]" and ?d0.0 = 10 and ?d1.0 = 10
      and origin = "[0, 0]" and oz = 0 and sx = "[0]" and gx = "[0, 100, 500]"
      and sy = None and gy = None and buffer_size = 50 and min_x = 0 and max_x = 550
      and ?m3.0 = "const_array [101, 51, 11] (0::real)" and ?n2.0 = 11
      and ?spacing3.0 = "[10, 10, 10]" and ?d2.0 = 10 and ?origin3.0 = "[0, 0, 0]"
      and sy' = "[20]" and gy' = "[20, 230]" and min_y = 0 and max_y = 280]
  have a: "\<exists>m' nx ox.
       restrict_model_to_receiver_grid [0] [0, 100, 500] (const_array [101, 51] (0::real))
         [10, 10] [0, 0] None None 50 = Inr (m', [nx, 51], [ox, 0]) \<and> shape m' = [nx, 51] \<and>
       ox = real_of_int \<lfloor>0 / 10 :: real\<rfloor> * 10 \<and>
       nx = nat (\<lfloor>550 / 10 :: real\<rfloor> - \<lfloor>0 / 10 :: real\<rfloor>) + 1 \<and>
       ox \<le> 0 \<and> 550 - 10 < ox + (real nx - 1) * 10 \<and> ox + (real nx - 1) * 10 \<le> 550"
    by (rule t [THEN conjunct1, THEN mp]) (simp add: y_coordinates_ok_def)
  have b: "\<exists>m' nx ny ox oy.
       restrict_model_to_receiver_grid [0] [0, 100, 500] (const_array [101, 51, 11] (0::real))
         [10, 10, 10] [0, 0, 0] (Some [20]) (Some [20, 230]) 50
         = Inr (m', [nx, ny, 11], [ox, oy, 0]) \<and> shape m' = [nx, ny, 11] \<and>
       ox = real_of_int \<lfloor>0 / 10 :: real\<rfloor> * 10 \<and>
       nx = nat (\<lfloor>550 / 10 :: real\<rfloor> - \<lfloor>0 / 10 :: real\<rfloor>) + 1 \<and>
       oy = real_of_int \<lfloor>0 / 10 :: real\<rfloor> * 10 \<and>
       ny = nat (\<lfloor>280 / 10 :: real\<rfloor> - \<lfloor>0 / 10 :: real\<rfloor>) + 1 \<and>
       ox \<le> 0 \<and> 550 - 10 < ox + (real nx - 1) * 10 \<and> ox + (real nx - 1) * 10 \<le> 550 \<and>
       oy \<le> 0 \<and> 280 - 10 < oy + (real ny - 1) * 10 \<and> oy + (real ny - 1) * 10 \<le> 280"
    by (rule t [THEN conjunct2, THEN conjunct1, THEN mp]) simp
  from a obtain m' where "restrict_model_to_receiver_grid [0] [0, 100, 500]
      (const_array [101, 51] (0::real)) [10, 10] [0, 0] None None 50 = Inr (m', [56, 51], [0, 0])"
    by auto
  moreover from b obtain m' where "restrict_model_to_receiver_grid [0] [0, 100, 500]
      (const_array [101, 51, 11] (0::real)) [10, 10, 10] [0, 0, 0] (Some [20]) (Some [20, 230]) 50
      = Inr (m', [56, 29, 11], [0, 0, 0])"
    by auto
  ultimately show ?thesis by blast
qed


text \<open>
  The claim as stated fails: with spacing 10, a receiver at 25 and no buffer the returned
  sub-domain is the single grid line at 20, so the receiver (inside the domain, which
  reaches 50) lies outside it.
\<close>

theorem restrict_cuts_buffer:
  "restrict_model_to_receiver_grid [20] [25]
     \<lparr>shape = [6, 2], flat = [0, 1, 2, 3, 4, 5, 6, 7, 8, 9, 10, 11 :: real]\<rparr>
     [10, 10] [0, 0] None None 0
     = Inr (\<lparr>shape = [1, 2], flat = [4, 5]\<rparr>, [1, 2], [20, 0]) \<and>
   (20 :: real) + (real 1 - 1) * 10 < 25 \<and> (25 :: real) \<le> 0 + (real 6 - 1) * 10"
proof -
  let ?m = "\<lparr>shape = [6, 2], flat = [0, 1, 2, 3, 4, 5, 6, 7, 8, 9, 10, 11 :: real]\<rparr>"
  have a: "py_int (20 / 10) = 2" and b: "py_int (25 / 10) = 2"
    by (simp_all add: py_int_def)
  have "restrict_model_to_receiver_grid [20] [25] ?m [10, 10] [0, 0] None None 0
      = Inr (tabulate [nat (py_int (25 / 10) - py_int (20 / 10)) + 1, 2]
               (\<lambda>idx. item ?m (map2 (+) [nat (py_int (20 / 10)), 0] idx)),
             [nat (py_int (25 / 10) - py_int (20 / 10)) + 1, 2],
             [real_of_int (py_int (20 / 10)) * 10, 0])"
    by (rule restrict_2d_origin0 [where ?n0.0 = 6 and ?d1.0 = 10])
      (simp_all add: y_coordinates_ok_def)
  also have "tabulate [nat (py_int (25 / 10) - py_int (20 / 10)) + 1, 2]
               (\<lambda>idx. item ?m (map2 (+) [nat (py_int (20 / 10)), 0] idx))
             = \<lparr>shape = [1, 2], flat = [4, 5]\<rparr>"
    unfolding a b by (simp add: tabulate_def item_def upt_rec [of 0] upt_rec [of "Suc n" for n])
  finally show ?thesis
    by (simp add: py_int_def)
qed


section \<open>Properties of the gradient embedding\<close>







section \<open>The round trip of restriction and embedding\<close>

lemma py_int_of_int [simp]: "py_int (real_of_int a) = a"
  by (simp add: py_int_def)

lemma round_trip_2d_origin0:
  fixes m :: "('a::zero) ndarray"
  assumes m: "shape m = [n0, n1]"
    and sp: "spacing = [d0, d1]" and org: "origin = [0, oz]"
    and d0: "0 < d0"
    and ne: "sx \<noteq> []" "gx \<noteq> []" and y: "y_coordinates_ok sy gy"
    and min_x: "min_x = max 0 (min (Min (set sx)) (Min (set gx)) - buffer_size)"
    and max_x: "max_x = min ((real n0 - 1) * d0)
                            (max (Max (set sx)) (Max (set gx)) + buffer_size)"
    and le: "min_x \<le> max_x"
  defines "a \<equiv> nat \<lfloor>min_x / d0\<rfloor>" and "b \<equiv> nat \<lfloor>max_x / d0\<rfloor>"
  shows "\<exists>r. restrict_then_extent sx gx m spacing origin sy gy buffer_size = Inr r \<and>
           shape r = [n0, n1] \<and>
           (\<forall>i k. i < n0 \<and> k < n1 \<longrightarrow>
              item r [i, k] = (if a \<le> i \<and> i \<le> b then item m [i, k] else 0))"
proof -
  have lo: "0 \<le> min_x" and hi: "max_x \<le> (real n0 - 1) * d0"
    by (simp_all add: min_x max_x)
  have fl: "py_int (min_x / d0) = \<lfloor>min_x / d0\<rfloor>" "py_int (max_x / d0) = \<lfloor>max_x / d0\<rfloor>"
    using lo le d0 by (simp_all add: py_int_nonneg)
  note ax = aperture_axis [OF d0 lo le hi, unfolded fl]
  have fm: "\<lfloor>min_x / d0\<rfloor> \<le> \<lfloor>max_x / d0\<rfloor>"
    using d0 le by (intro floor_mono) (simp add: divide_right_mono)
  have a: "\<lfloor>min_x / d0\<rfloor> = int a" and b: "\<lfloor>max_x / d0\<rfloor> = int b"
    and ab: "a \<le> b" and bn: "b < n0"
    unfolding a_def b_def using ax(1,3) fm by linarith+
  define g where "g = tabulate [b - a + 1, n1] (\<lambda>idx. item m (map2 (+) [a, 0] idx))"
  have nba: "nat (int b - int a) + 1 = b - a + 1"
    using ab by simp
  have r: "restrict_model_to_receiver_grid sx gx m spacing origin sy gy buffer_size
      = Inr (g, [b - a + 1, n1], [real a * d0, oz])"
    using restrict_2d_origin0 [OF m sp org d0 ne y min_x max_x le]
    unfolding fl a b nba g_def by simp
  have l: "left_offset origin [real a * d0, oz] spacing 0 = Inr (int a)"
    using d0 by (simp add: left_offset_def org sp getitem_def py_int_quot_def py_int_nonneg)
  have "\<exists>r. extent_gradient [int n0, int n1] origin [int (b - a + 1), int n1] [real a * d0, oz]
             spacing g = Inr r \<and>
           shape r = [n0, n1] \<and>
           (\<forall>i k. i < n0 \<and> k < n1 \<longrightarrow>
              item r [i, k] = (if a \<le> i \<and> i < a + (b - a + 1)
                               then item g [i - a, k] else 0))"
    using ab bn by (intro extent_gradient_2d [OF refl l]) (simp_all add: getitem_def g_def)
  then obtain r where e: "extent_gradient [int n0, int n1] origin [int (b - a + 1), int n1]
        [real a * d0, oz] spacing g = Inr r"
    and sh: "shape r = [n0, n1]"
    and it: "\<And>i k. i < n0 \<Longrightarrow> k < n1 \<Longrightarrow>
              item r [i, k] = (if a \<le> i \<and> i < a + (b - a + 1)
                               then item g [i - a, k] else 0)"
    by blast
  have gi: "item g [i - a, k] = item m [i, k]" if "a \<le> i" "i \<le> b" "k < n1" for i k
    unfolding g_def using that by (subst item_tabulate) simp_all
  have "restrict_then_extent sx gx m spacing origin sy gy buffer_size = Inr r"
    using e by (simp add: restrict_then_extent_def r m)
  moreover have "item r [i, k] = (if a \<le> i \<and> i \<le> b then item m [i, k] else 0)"
    if "i < n0" "k < n1" for i k
    using it [OF that] ab that gi [of i k] by auto
  ultimately show ?thesis
    using sh by blast
qed


text \<open>
  Claim C1. The round trip holds when the restricted axis starts at coordinate 0
  (lemma \<open>round_trip_2d_origin0\<close>), but not for every origin:
  \<^verbatim>\<open>restrict_model_to_receiver_grid\<close> clips the aperture against the origin and then uses
  \<^verbatim>\<open>int(min_x / spacing)\<close>, a coordinate counted from 0, as the array index, while
  \<^verbatim>\<open>extent_gradient\<close> counts its offset from \<^verbatim>\<open>origin_full\<close>. For a model of six grid lines
  whose origin is 10 (spacing 10), a source at 20 and a receiver at 25, the aperture is the
  grid line at coordinate 20, which is row 1 (values 2, 3). The restriction returns row 2
  (values 4, 5), and the embedding writes these values into row 1.
\<close>

theorem round_trip_shifted_origin:
  "restrict_model_to_receiver_grid [20] [25]
     \<lparr>shape = [6, 2], flat = [0, 1, 2, 3, 4, 5, 6, 7, 8, 9, 10, 11 :: real]\<rparr>
     [10, 10] [10, 0] None None 0
     = Inr (\<lparr>shape = [1, 2], flat = [4, 5]\<rparr>, [1, 2], [20, 0]) \<and>
   restrict_then_extent [20] [25]
     \<lparr>shape = [6, 2], flat = [0, 1, 2, 3, 4, 5, 6, 7, 8, 9, 10, 11 :: real]\<rparr>
     [10, 10] [10, 0] None None 0
     = Inr \<lparr>shape = [6, 2], flat = [0, 0, 4, 5, 0, 0, 0, 0, 0, 0, 0, 0]\<rparr>"
proof -
  let ?m = "\<lparr>shape = [6, 2], flat = [0, 1, 2, 3, 4, 5, 6, 7, 8, 9, 10, 11 :: real]\<rparr>"
  have "restrict_model_to_receiver_grid [20] [25] ?m [10, 10] [10, 0] None None 0
      = bind_result (np_slice ?m [Slice (py_int (20 / 10)) (py_int (25 / 10) + 1), Colon])
          (\<lambda>m'. Inr (m', shape m', [real_of_int (py_int (20 / 10)) * 10, 0]))"
    by (rule restrict_2d [where ?n0.0 = 6 and ?d1.0 = 10 and ?o0.0 = 10])
      (simp_all add: y_coordinates_ok_def)
  also have "np_slice ?m [Slice (py_int (20 / 10)) (py_int (25 / 10) + 1), Colon]
      = Inr \<lparr>shape = [1, 2], flat = [4, 5]\<rparr>"
    by (simp add: py_int_def np_slice_def slice_ranges_def slice_indices_def tabulate_def
        item_def upt_rec [of 0] upt_rec [of "Suc n" for n])
  finally have r: "restrict_model_to_receiver_grid [20] [25] ?m [10, 10] [10, 0] None None 0
      = Inr (\<lparr>shape = [1, 2], flat = [4, 5]\<rparr>, [1, 2], [20, 0])"
    by (simp add: py_int_def)
  have l: "left_offset [10, 0] [20, 0] [10, 10] 0 = Inr 1"
    by (simp add: left_offset_def getitem_def py_int_quot_def py_int_def)
  have z1: "np_zeros [1, 2] = Inr (const_array [Suc 0, 2] (0::real))"
    using np_zeros_eq [of "[1, 2]"] by simp
  have z2: "np_zeros [4, 2] = Inr (const_array [4, 2] (0::real))"
    using np_zeros_eq [of "[4, 2]"] by simp
  have c: "np_concatenate [const_array [Suc 0, 2] 0,
             \<lparr>shape = [Suc 0, 2], flat = [4, 5 :: real]\<rparr>, const_array [4, 2] 0] 0
           = Inr \<lparr>shape = [6, 2], flat = [0, 0, 4, 5, 0, 0, 0, 0, 0, 0, 0, 0]\<rparr>"
    by (simp add: np_concatenate_def tabulate_def const_array_def item_def
        upt_rec [of 0] upt_rec [of "Suc n" for n])
  have e: "extent_gradient [6, 2] [10, 0] [1, 2] [20, 0] [10, 10]
             \<lparr>shape = [Suc 0, 2], flat = [4, 5 :: real]\<rparr>
           = Inr \<lparr>shape = [6, 2], flat = [0, 0, 4, 5, 0, 0, 0, 0, 0, 0, 0, 0]\<rparr>"
    by (simp add: extent_gradient_def l right_offset_def getitem_def z1 z2 c)
  have "restrict_then_extent [20] [25] ?m [10, 10] [10, 0] None None 0
      = Inr \<lparr>shape = [6, 2], flat = [0, 0, 4, 5, 0, 0, 0, 0, 0, 0, 0, 0]\<rparr>"
    by (simp add: restrict_then_extent_def r e)
  with r show ?thesis by blast
qed

section \<open>Properties of the damping profile\<close>

lemma dampcoeff_pos: "0 < dampcoeff"
  by (simp add: dampcoeff_def)

lemma damp_val_taper:
  "damp_val nbpml j mask' = (if mask' then - 1 else 1) * dampcoeff * taper (damp_pos nbpml j)"
  by (simp add: damp_val_def taper_def Let_def)


lemma taper_pos:
  assumes "1 \<le> p"
  shows "0 < taper p"
proof -
  have "sin (2 * pi * p) / (2 * pi) \<le> 1 / (2 * pi)"
    by (intro divide_right_mono) simp_all
  also have "\<dots> \<le> 1 / 4"
    using pi_ge_two by (simp add: field_simps)
  finally have "sin (2 * pi * p) / (2 * pi) \<le> 1 / 4" .
  with assms show ?thesis
    unfolding taper_def by linarith
qed








text \<open>
  Claim C7. The coefficient is \<open>1.5 * ln 1000 / 40\<close> whatever the number of layers: the
  source divides by the constant \<^verbatim>\<open>40.\<close>, the default of \<^verbatim>\<open>nbpml\<close> in
  \<^verbatim>\<open>Model.__init__\<close>, and not by its argument \<^verbatim>\<open>nbpml\<close>. With ten layers the value of
  layer 0 is built from \<open>1.5 * ln 1000 / 40\<close>, a quarter of what the claim states.
\<close>

theorem dampcoeff_ignores_nbpml:
  "dampcoeff = 3 / 2 * ln 1000 / 40 \<and>
   damp_val 10 0 False = 3 / 2 * ln 1000 / 40 * taper (damp_pos 10 0) \<and>
   damp_val 10 0 False \<noteq> 3 / 2 * ln 1000 / 10 * taper (damp_pos 10 0)"
proof -
  have l: "0 < ln (1000::real)"
    by simp
  have d: "dampcoeff = 3 / 2 * ln 1000 / 40"
    by (simp add: dampcoeff_def)
  have "damp_pos 10 0 = 11 / 10"
    by (simp add: damp_pos_def)
  then have t: "0 < taper (damp_pos 10 0)"
    by (simp add: taper_pos)
  have v: "damp_val 10 0 False = 3 / 2 * ln 1000 / 40 * taper (damp_pos 10 0)"
    by (simp add: damp_val_taper d)
  have "3 / 2 * ln 1000 / 40 * taper (damp_pos 10 0)
          < 3 / 2 * ln 1000 / 10 * taper (damp_pos 10 0)"
    using l t by (intro mult_strict_right_mono) simp_all
  then have "damp_val 10 0 False \<noteq> 3 / 2 * ln 1000 / 10 * taper (damp_pos 10 0)"
    unfolding v by (rule less_imp_neq)
  with d v show ?thesis
    by blast
qed

section \<open>One pass of the damping loop\<close>

lemma slice_range_whole: "slice_range (Slice 0 (int n)) n = (0, n)"
  by (simp add: slice_indices_def)

lemma slice_range_single:
  "0 \<le> lo \<Longrightarrow> k < n \<Longrightarrow>
   (fst (slice_range (Slice lo (lo + 1)) n) \<le> k \<and>
    k < fst (slice_range (Slice lo (lo + 1)) n) + snd (slice_range (Slice lo (lo + 1)) n))
   \<longleftrightarrow> int k = lo"
  by (auto simp: slice_indices_def Let_def min_def max_def)

lemma in_ranges_axis:
  assumes i: "i < length sh" and b: "in_bounds sh idx" and lo: "0 \<le> lo"
  shows "in_ranges (slice_ranges ((map (\<lambda>d. Slice 0 (int d)) sh)[i := Slice lo (lo + 1)]) sh) idx
         \<longleftrightarrow> int (idx ! i) = lo"
proof -
  let ?key = "(map (\<lambda>d. Slice 0 (int d)) sh)[i := Slice lo (lo + 1)]"
  have len: "length idx = length sh"
    using b by (simp add: in_bounds_def list_all2_lengthD)
  have lt: "\<And>k. k < length sh \<Longrightarrow> idx ! k < sh ! k"
    using b len by (simp add: in_bounds_def list_all2_conv_all_nth)
  have rs: "slice_ranges ?key sh = map2 slice_range ?key sh"
    by (simp add: slice_ranges_def)
  have "in_ranges (slice_ranges ?key sh) idx
        \<longleftrightarrow> (\<forall>k<length sh. fst (slice_range (?key ! k) (sh ! k)) \<le> idx ! k \<and>
               idx ! k < fst (slice_range (?key ! k) (sh ! k)) + snd (slice_range (?key ! k) (sh ! k)))"
    unfolding rs in_ranges_def by (simp add: list_all2_conv_all_nth len)
  also have "\<dots> \<longleftrightarrow> int (idx ! i) = lo"
  proof
    assume a: "\<forall>k<length sh. fst (slice_range (?key ! k) (sh ! k)) \<le> idx ! k \<and>
               idx ! k < fst (slice_range (?key ! k) (sh ! k)) + snd (slice_range (?key ! k) (sh ! k))"
    from a [rule_format, OF i] show "int (idx ! i) = lo"
      using i slice_range_single [OF lo lt [OF i]] by simp
  next
    assume e: "int (idx ! i) = lo"
    show "\<forall>k<length sh. fst (slice_range (?key ! k) (sh ! k)) \<le> idx ! k \<and>
               idx ! k < fst (slice_range (?key ! k) (sh ! k)) + snd (slice_range (?key ! k) (sh ! k))"
    proof (intro allI impI)
      fix k assume k: "k < length sh"
      show "fst (slice_range (?key ! k) (sh ! k)) \<le> idx ! k \<and>
               idx ! k < fst (slice_range (?key ! k) (sh ! k)) + snd (slice_range (?key ! k) (sh ! k))"
      proof (cases "k = i")
        case True
        then show ?thesis
          using i e slice_range_single [OF lo lt [OF i]] by simp
      next
        case False
        then have "?key ! k = Slice 0 (int (sh ! k))"
          using k by simp
        then show ?thesis
          using lt [OF k] by (simp only: slice_range_whole) simp
      qed
    qed
  qed
  finally show ?thesis .
qed

lemma np_iadd_slice_axis:
  assumes i: "i < length (shape a)" and lo: "0 \<le> lo"
  shows "\<exists>b. np_iadd_slice a ((map (\<lambda>d. Slice 0 (int d)) (shape a))[i := Slice lo (lo + 1)]) v
               = Inr b \<and> shape b = shape a \<and>
             (\<forall>idx. in_bounds (shape a) idx \<longrightarrow>
                item b idx = (if int (idx ! i) = lo then item a idx + v else item a idx))"
  using in_ranges_axis [OF i _ lo]
  by (simp add: np_iadd_slice_def Let_def item_tabulate)

text \<open>
  What one pass of the inner loop does to an array, for a layer \<open>j\<close> between 0 and the
  length \<open>n\<close> of axis \<open>i\<close>: the value of the layer, divided by the spacing, is added
  where the index on axis \<open>i\<close> is \<open>j\<close> and where it is \<open>n - j\<close>. The mirror of index
  \<open>j\<close> is \<open>n - 1 - j\<close>; and for \<open>j = 0\<close> no index equals \<open>n\<close>, so the pass adds on
  the near side only (lemma \<open>damp_layer_edge\<close>).
\<close>

lemma damp_layer_item:
  assumes i: "i < length (shape data)" and sp: "getitem spacing (int i) = Inr h" "h \<noteq> 0"
    and j: "0 \<le> j" "j \<le> int (shape data ! i)"
  shows "\<exists>d. damp_layer nbpml spacing mask' i j data = Inr d \<and> shape d = shape data \<and>
           (\<forall>idx. in_bounds (shape data) idx \<longrightarrow>
              item d idx = item data idx
                + (if int (idx ! i) = j then damp_val nbpml j mask' / h else 0)
                + (if int (idx ! i) = int (shape data ! i) - j
                   then damp_val nbpml j mask' / h else 0))"
proof -
  let ?v = "damp_val nbpml j mask' / h"
  let ?n = "int (shape data ! i)"
  obtain b where b: "np_iadd_slice data
        ((map (\<lambda>d. Slice 0 (int d)) (shape data))[i := Slice j (j + 1)]) ?v = Inr b"
      "shape b = shape data"
      "\<forall>idx. in_bounds (shape data) idx \<longrightarrow>
          item b idx = (if int (idx ! i) = j then item data idx + ?v else item data idx)"
    using np_iadd_slice_axis [OF i j(1), of ?v] by blast
  have ib: "i < length (shape b)" using i b(2) by simp
  have lo: "0 \<le> ?n - j" using j(2) by simp
  obtain c where c: "np_iadd_slice b
        ((map (\<lambda>d. Slice 0 (int d)) (shape b))[i := Slice (?n - j) (?n - j + 1)]) ?v = Inr c"
      "shape c = shape b"
      "\<forall>idx. in_bounds (shape b) idx \<longrightarrow>
          item c idx = (if int (idx ! i) = ?n - j then item b idx + ?v else item b idx)"
    using np_iadd_slice_axis [OF ib lo, of ?v] by blast
  have "damp_layer nbpml spacing mask' i j data = Inr c"
    using sp b(1) c(1) by (simp add: damp_layer_def Let_def b(2))
  moreover have "shape c = shape data"
    using b(2) c(2) by simp
  moreover have "\<forall>idx. in_bounds (shape data) idx \<longrightarrow>
              item c idx = item data idx
                + (if int (idx ! i) = j then ?v else 0)
                + (if int (idx ! i) = ?n - j then ?v else 0)"
    using b(3) c(3) by (simp add: b(2))
  ultimately show ?thesis by blast
qed

lemma damp_layer_edge:
  assumes "i < length (shape data)" "getitem spacing (int i) = Inr h" "h \<noteq> 0"
    and "in_bounds (shape data) idx"
  shows "\<exists>d. damp_layer nbpml spacing mask' i 0 data = Inr d \<and>
           item d idx = item data idx
             + (if idx ! i = 0 then damp_val nbpml 0 mask' / h else 0)"
proof -
  have "idx ! i < shape data ! i"
    using assms(1,4) by (simp add: in_bounds_def list_all2_conv_all_nth)
  then have "int (idx ! i) \<noteq> int (shape data ! i) - 0"
    by simp
  then show ?thesis
    using damp_layer_item [OF assms(1-3), of 0 nbpml mask'] assms(4) by auto
qed

section \<open>The damping loops on a small grid\<close>

lemma damp_val_2:
  "damp_val 2 0 True = - (3 / 2 * dampcoeff)" "damp_val 2 1 True = - dampcoeff"
proof -
  have "sin (3 * pi) = 0"
    using sin_npi_numeral [of "num.Bit1 num.One"] by simp
  then show "damp_val 2 0 True = - (3 / 2 * dampcoeff)" "damp_val 2 1 True = - dampcoeff"
    by (simp_all add: damp_val_def damp_pos_def)
qed

lemmas array_eval = getitem_def np_iadd_slice_def slice_ranges_def
      slice_indices_def in_ranges_def tabulate_def item_def const_array_def Let_def
      upt_rec [of 0] upt_rec [of "Suc n" for n]

lemma damp_loops_5x5:
  "foldM (\<lambda>i. foldM (damp_layer 2 [1, 1] True i) (map int [0..<nat 2])) [0..<2]
      (const_array [5, 5] 1)
   = Inr damp_5x5"
  by (simp add: damp_layer_def damp_val_2 array_eval damp_5x5_def)

lemma new_damp:
  "new_Function example_damp_grid 1
   = Inr \<lparr>fn_grid = example_damp_grid, size_halo = [(1, 1), (1, 1)],
          data_with_halo = const_array [7, 7] 0\<rparr>"
  by (simp add: new_Function_def example_damp_grid_def np_zeros_def np_full_def)

lemma init_damp_5x5:
  "initialize_damp \<lparr>fn_grid = example_damp_grid, size_halo = [(1, 1), (1, 1)],
          data_with_halo = const_array [7, 7] 0\<rparr> 2 [1, 1] True
   = initialize_function \<lparr>fn_grid = example_damp_grid, size_halo = [(1, 1), (1, 1)],
          data_with_halo = const_array [7, 7] 0\<rparr> damp_5x5 0"
proof -
  let ?D = "\<lparr>fn_grid = example_damp_grid, size_halo = [(1, 1), (1, 1)],
          data_with_halo = const_array [7, 7] (0::real)\<rparr>"
  have phy: "phydomain_shape (fn_grid ?D) = [1, 1]"
    by (simp add: phydomain_shape_def example_damp_grid_def)
  have ndim: "length (grid_shape (fn_grid ?D)) = 2"
    by (simp add: example_damp_grid_def)
  have ones: "np_ones [1, 1] = Inr (const_array [1, 1] (1::real))"
    by (simp add: np_ones_def np_full_def)
  have rep: "replicate 2 (2::int, 2::int) = [(2, 2), (2, 2)]"
    by (simp add: numeral_2_eq_2)
  have r: "replicate 25 (1::real)
      = [1, 1, 1, 1, 1, 1, 1, 1, 1, 1, 1, 1, 1, 1, 1, 1, 1, 1, 1, 1, 1, 1, 1, 1, 1]"
    by (simp add: numeral_eq_Suc)
  have pad: "np_pad_edge (const_array [1, 1] (1::real)) (replicate 2 (2, 2))
      = Inr (const_array [5, 5] 1)"
    by (simp add: np_pad_edge_def array_eval r rep)
  have halo: "list_all (\<lambda>i. i = hd (size_halo ?D)) (size_halo ?D) = True"
    by simp
  show ?thesis
    unfolding initialize_damp_def Let_def
    by (simp only: phy ndim ones pad halo damp_loops_5x5 bind_result_Inr if_True if_False
        not_True_eq_False)
qed

lemma tabulate_5x5:
  "tabulate [5, 5] f
   = \<lparr>shape = [5, 5],
      flat = [f [0, 0], f [0, 1], f [0, 2], f [0, 3], f [0, 4],
              f [1, 0], f [1, 1], f [1, 2], f [1, 3], f [1, 4],
              f [2, 0], f [2, 1], f [2, 2], f [2, 3], f [2, 4],
              f [3, 0], f [3, 1], f [3, 2], f [3, 3], f [3, 4],
              f [4, 0], f [4, 1], f [4, 2], f [4, 3], f [4, 4]]\<rparr>"
  by (simp add: tabulate_def upt_rec [of 0] upt_rec [of "Suc n" for n]
      numeral_2_eq_2 [symmetric])

lemma halo_round_trip:
  "bind_result (initialize_function \<lparr>fn_grid = g, size_halo = [(1, 1), (1, 1)],
          data_with_halo = const_array [7, 7] 0\<rparr> damp_5x5 0) fn_data = Inr damp_5x5"
proof -
  have s: "shape damp_5x5 = [5, 5]"
    by (simp add: damp_5x5_def)
  have "bind_result (initialize_function \<lparr>fn_grid = g, size_halo = [(1, 1), (1, 1)],
          data_with_halo = const_array [7, 7] 0\<rparr> damp_5x5 0) fn_data
     = Inr (tabulate [5, 5] (item damp_5x5))"
    apply (simp add: initialize_function_def np_pad_edge_def np_assign_def broadcast_ok_def
      fn_data_def np_slice_def s Let_def slice_ranges_def slice_indices_def)
    apply (simp add: tabulate_5x5 item_tabulate numeral_2_eq_2 [symmetric])
    done
  also have "tabulate [5, 5] (item damp_5x5) = damp_5x5"
    by (simp add: tabulate_5x5) (simp add: damp_5x5_def item_def)
  finally show ?thesis .
qed

text \<open>
  Claim C8. On the grid of five by five points with two layers per side, the mask that
  \<^verbatim>\<open>initialize_damp\<close> builds is not symmetric. Along the first axis, at a column of the
  physical domain, index 0 receives the contribution of layer 0 and index 1 that of
  layer 1; on the far side the slice of layer 0 is \<^verbatim>\<open>5:6\<close>, which is empty, and the slice
  of layer 1 is \<^verbatim>\<open>4:5\<close>. So index 4, the mirror of index 0, holds the value of layer 1,
  and index 3, the mirror of index 1 and a point of the absorbing layer, keeps the initial
  value 1. The only physical point (index 2 on both axes) keeps the value 1. Lemma
  \<open>damp_layer_item\<close> gives the two positions of every pass on any array.
\<close>

theorem damp_far_side_shifted:
  "example_damp
   = Inr \<lparr>shape = [5, 5],
          flat =
            [1 - 3 * dampcoeff, 1 - 5 * dampcoeff / 2, 1 - 3 * dampcoeff / 2,
             1 - 3 * dampcoeff / 2, 1 - 5 * dampcoeff / 2,
             1 - 5 * dampcoeff / 2, 1 - 2 * dampcoeff, 1 - dampcoeff,
             1 - dampcoeff, 1 - 2 * dampcoeff,
             1 - 3 * dampcoeff / 2, 1 - dampcoeff, 1, 1, 1 - dampcoeff,
             1 - 3 * dampcoeff / 2, 1 - dampcoeff, 1, 1, 1 - dampcoeff,
             1 - 5 * dampcoeff / 2, 1 - 2 * dampcoeff, 1 - dampcoeff, 1 - dampcoeff,
             1 - 2 * dampcoeff]\<rparr> \<and>
   item (projr example_damp) [0, 2] = 1 - 3 * dampcoeff / 2 \<and>
   item (projr example_damp) [4, 2] = 1 - dampcoeff \<and>
   item (projr example_damp) [1, 2] = 1 - dampcoeff \<and>
   item (projr example_damp) [3, 2] = 1 \<and>
   item (projr example_damp) [0, 2] \<noteq> item (projr example_damp) [4, 2] \<and>
   item (projr example_damp) [1, 2] \<noteq> item (projr example_damp) [3, 2]"
proof -
  have e: "example_damp = Inr damp_5x5"
    unfolding example_damp_def new_damp bind_result_Inr init_damp_5x5
    by (rule halo_round_trip)
  show ?thesis
    using dampcoeff_pos by (simp add: e damp_5x5_def item_def)
qed

section \<open>Construction of a model\<close>

lemma bind_result_eq_Inr:
  "bind_result r f = Inr y \<longleftrightarrow> (\<exists>x. r = Inr x \<and> f x = Inr y)"
  by (cases r) simp_all

lemma bind_result_InrE:
  assumes "bind_result r f = Inr y"
  obtains x where "r = Inr x" "f x = Inr y"
  using assms by (cases r) simp_all

lemma np_zeros_nonneg:
  "list_all (\<lambda>d. 0 \<le> d) dims \<Longrightarrow> np_zeros dims = Inr (const_array (map nat dims) 0)"
  by (rule np_zeros_eq)

lemma np_ones_nonneg:
  "list_all (\<lambda>d. 0 \<le> d) dims \<Longrightarrow> np_ones dims = Inr (const_array (map nat dims) 1)"
  by (auto simp: np_ones_def np_full_def list_ex_iff list_all_iff)

lemma np_pad_edge_shape:
  assumes "length ws = length (shape a)"
    and "list_all (\<lambda>w. 0 \<le> fst w \<and> 0 \<le> snd w) ws"
    and "list_all (\<lambda>n. 0 < n) (shape a)"
  shows "\<exists>b. np_pad_edge a ws = Inr b \<and>
             shape b = map2 (\<lambda>n w. n + nat (fst w) + nat (snd w)) (shape a) ws"
proof -
  have ws: "(if length ws = 1 then replicate (length (shape a)) (hd ws) else ws) = ws"
    using assms(1) by (cases ws) auto
  have neg: "\<not> list_ex (\<lambda>w. fst w < 0 \<or> snd w < 0) ws"
    using assms(2) by (auto simp: list_ex_iff list_all_iff)
  have emp: "\<not> list_ex (\<lambda>(n, w). n = 0 \<and> (0 < fst w \<or> 0 < snd w)) (zip (shape a) ws)"
    using assms(3) by (auto simp: list_ex_iff list_all_iff dest: set_zip_leftD)
  show ?thesis
    unfolding np_pad_edge_def Let_def ws using assms(1) neg emp by simp
qed

lemma broadcast_ok_refl: "broadcast_ok sh sh"
  by (simp add: broadcast_ok_def list_all2_same)

lemma np_assign_same_shape:
  "shape src = shape tgt \<Longrightarrow> \<exists>d. np_assign tgt src = Inr d \<and> shape d = shape tgt"
  by (simp add: np_assign_def broadcast_ok_refl)

lemma initialize_function_ok:
  assumes len: "length (size_halo f) = length (shape a)"
    and nb: "0 \<le> nbpml"
    and pos: "list_all (\<lambda>n. 0 < n) (shape a)"
    and sh: "shape (data_with_halo f)
               = map2 (\<lambda>n h. n + nat (nbpml + int (fst h)) + nat (nbpml + int (snd h)))
                   (shape a) (size_halo f)"
  shows "\<exists>d. initialize_function f a nbpml = Inr (f\<lparr>data_with_halo := d\<rparr>) \<and>
             shape d = shape (data_with_halo f)"
proof -
  let ?ws = "map (\<lambda>i. (nbpml + int (fst i), nbpml + int (snd i))) (size_halo f)"
  have "\<exists>b. np_pad_edge a ?ws = Inr b \<and>
             shape b = map2 (\<lambda>n w. n + nat (fst w) + nat (snd w)) (shape a) ?ws"
    using len nb pos by (intro np_pad_edge_shape) (simp_all add: list_all_iff)
  then obtain b where b: "np_pad_edge a ?ws = Inr b"
    and sb: "shape b = map2 (\<lambda>n w. n + nat (fst w) + nat (snd w)) (shape a) ?ws"
    by blast
  have "shape b = shape (data_with_halo f)"
    unfolding sb sh by (simp add: zip_map2 o_def split_def)
  then obtain d where "np_assign (data_with_halo f) b = Inr d" "shape d = shape (data_with_halo f)"
    using np_assign_same_shape by blast
  then show ?thesis
    by (intro exI [of _ d]) (simp add: initialize_function_def b)
qed

lemma new_Function_ok:
  assumes "0 \<le> space_order" "list_all (\<lambda>n. 0 \<le> n) (grid_shape g)"
  shows "new_Function g space_order
           = Inr \<lparr>fn_grid = g,
                  size_halo = replicate (length (grid_shape g)) (nat space_order, nat space_order),
                  data_with_halo
                    = const_array (map (\<lambda>n. nat (n + 2 * space_order)) (grid_shape g)) 0\<rparr>"
proof -
  have "list_all (\<lambda>d. 0 \<le> d) (map (\<lambda>n. n + 2 * space_order) (grid_shape g))"
    using assms by (auto simp: list_all_iff)
  then have "np_zeros (map (\<lambda>n. n + 2 * space_order) (grid_shape g))
      = Inr (const_array (map nat (map (\<lambda>n. n + 2 * space_order) (grid_shape g))) (0::real))"
    by (rule np_zeros_eq)
  then show ?thesis
    using assms(1) by (simp add: new_Function_def o_def)
qed

lemma new_field_ok:
  assumes so: "0 \<le> space_order" and nb: "0 \<le> nbpml"
    and sa: "map int (shape a) = map (\<lambda>n. n - 2 * nbpml) (grid_shape g)"
    and pos: "list_all (\<lambda>n. 0 < n) (shape a)"
  shows "\<exists>f. new_field g space_order a nbpml = Inr (OnGrid f)"
proof -
  let ?f = "\<lparr>fn_grid = g,
             size_halo = replicate (length (grid_shape g)) (nat space_order, nat space_order),
             data_with_halo
               = const_array (map (\<lambda>n. nat (n + 2 * space_order)) (grid_shape g)) 0\<rparr>"
  have len: "length (shape a) = length (grid_shape g)"
    using sa by (metis length_map)
  have gs: "grid_shape g = map (\<lambda>n. int n + 2 * nbpml) (shape a)"
  proof (rule nth_equalityI)
    show "length (grid_shape g) = length (map (\<lambda>n. int n + 2 * nbpml) (shape a))"
      using len by simp
    fix i assume i: "i < length (grid_shape g)"
    have "map int (shape a) ! i = map (\<lambda>n. n - 2 * nbpml) (grid_shape g) ! i"
      using sa by simp
    then show "grid_shape g ! i = map (\<lambda>n. int n + 2 * nbpml) (shape a) ! i"
      using i len by simp
  qed
  have nn: "list_all (\<lambda>n. 0 \<le> n) (grid_shape g)"
    unfolding gs using nb by (simp add: list_all_iff)
  have nf: "new_Function g space_order = Inr ?f"
    using so nn by (rule new_Function_ok)
  have "\<exists>d. initialize_function ?f a nbpml = Inr (?f\<lparr>data_with_halo := d\<rparr>) \<and>
             shape d = shape (data_with_halo ?f)"
  proof (rule initialize_function_ok)
    show "length (size_halo ?f) = length (shape a)"
      using len by simp
    show "0 \<le> nbpml" by (rule nb)
    show "list_all (\<lambda>n. 0 < n) (shape a)" by (rule pos)
    show "shape (data_with_halo ?f)
               = map2 (\<lambda>n h. n + nat (nbpml + int (fst h)) + nat (nbpml + int (snd h)))
                   (shape a) (size_halo ?f)"
      using so nb unfolding gs
      by (intro nth_equalityI) (simp_all add: nat_add_distrib)
  qed
  then show ?thesis
    by (auto simp: new_field_def nf)
qed

lemma np_iadd_slice_shape:
  "length key \<le> length (shape a) \<Longrightarrow>
   \<exists>b. np_iadd_slice a key v = Inr b \<and> shape b = shape a"
  by (simp add: np_iadd_slice_def Let_def)

lemma damp_layer_ok:
  assumes "i < length (shape a)" "i < length spacing" "spacing ! i \<noteq> 0"
  shows "\<exists>b. damp_layer nbpml spacing mask' i j a = Inr b \<and> shape b = shape a"
proof -
  let ?ind = "map (\<lambda>d. Slice 0 (int d)) (shape a)"
  have g: "getitem spacing (int i) = Inr (spacing ! i)"
    using assms(2) by (simp add: getitem_def)
  obtain b where b: "np_iadd_slice a (?ind[i := Slice j (j + 1)])
        (damp_val nbpml j mask' / spacing ! i) = Inr b" "shape b = shape a"
    using np_iadd_slice_shape [of "?ind[i := Slice j (j + 1)]" a] by auto
  obtain c where c: "np_iadd_slice b
        (?ind[i := Slice (int (shape a ! i) - j) (int (shape a ! i) - j + 1)])
        (damp_val nbpml j mask' / spacing ! i) = Inr c" "shape c = shape b"
    using np_iadd_slice_shape
      [of "?ind[i := Slice (int (shape a ! i) - j) (int (shape a ! i) - j + 1)]" b] b(2)
    by auto
  show ?thesis
    using assms(3) b c by (simp add: damp_layer_def Let_def g)
qed

lemma foldM_layers_ok:
  assumes "i < length (shape a)" "i < length spacing" "spacing ! i \<noteq> 0"
  shows "\<exists>b. foldM (damp_layer nbpml spacing mask' i) js a = Inr b \<and> shape b = shape a"
  using assms
proof (induction js arbitrary: a)
  case Nil
  then show ?case by simp
next
  case (Cons j js)
  obtain b where b: "damp_layer nbpml spacing mask' i j a = Inr b" "shape b = shape a"
    using damp_layer_ok [OF Cons.prems] by blast
  obtain c where "foldM (damp_layer nbpml spacing mask' i) js b = Inr c" "shape c = shape b"
    using Cons.IH [of b] Cons.prems b(2) by auto
  then show ?case
    using b by simp
qed

lemma foldM_axes_ok:
  assumes "\<forall>i\<in>set axes. i < length (shape a) \<and> i < length spacing \<and> spacing ! i \<noteq> 0"
  shows "\<exists>b. foldM (\<lambda>i. foldM (damp_layer nbpml spacing mask' i) js) axes a = Inr b \<and>
             shape b = shape a"
  using assms
proof (induction axes arbitrary: a)
  case Nil
  then show ?case by simp
next
  case (Cons i axes)
  then have i: "i < length (shape a)" "i < length spacing" "spacing ! i \<noteq> 0"
    by simp_all
  obtain b where b: "foldM (damp_layer nbpml spacing mask' i) js a = Inr b" "shape b = shape a"
    using foldM_layers_ok [OF i] by blast
  obtain c where "foldM (\<lambda>i. foldM (damp_layer nbpml spacing mask' i) js) axes b = Inr c"
      "shape c = shape b"
    using Cons.IH [of b] Cons.prems b(2) by auto
  then show ?case
    using b by simp
qed

lemma initialize_damp_ok:
  assumes gs: "grid_shape g = map (\<lambda>n. int n + 2 * nbpml) sh"
    and ph: "grid_phydomain g = nbpml" and nb: "0 \<le> nbpml"
    and pos: "list_all (\<lambda>n. 0 < n) sh"
    and damp: "fn_grid damp = g" "size_halo damp = replicate (length sh) (h, h)"
      "shape (data_with_halo damp) = map (\<lambda>n. n + 2 * nat nbpml + 2 * h) sh"
    and sp: "length spacing = length sh" "list_all (\<lambda>s. s \<noteq> 0) spacing"
  shows "\<exists>d. initialize_damp damp nbpml spacing mask' = Inr (damp\<lparr>data_with_halo := d\<rparr>)"
proof -
  define v :: real where "v = (if mask' then 1 else 0)"
  have phy: "phydomain_shape g = map int sh"
    by (simp add: phydomain_shape_def gs ph o_def)
  have nn: "list_all (\<lambda>d. 0 \<le> d) (map int sh)"
    by (simp add: list_all_iff)
  have d0: "(if mask' then np_ones (map int sh) else np_zeros (map int sh))
              = Inr (const_array sh v)"
    using np_ones_nonneg [OF nn, where ?'a = real] np_zeros_eq [OF nn, where ?'a = real]
    by (simp add: v_def o_def)
  have "\<exists>b. np_pad_edge (const_array sh v) (replicate (length sh) (nbpml, nbpml)) = Inr b \<and>
          shape b = map2 (\<lambda>n w. n + nat (fst w) + nat (snd w)) (shape (const_array sh v))
                      (replicate (length sh) (nbpml, nbpml))"
    using nb pos by (intro np_pad_edge_shape) (simp_all add: list_all_iff)
  then obtain b where b: "np_pad_edge (const_array sh v) (replicate (length sh) (nbpml, nbpml))
        = Inr b"
    and sb0: "shape b = map2 (\<lambda>n w. n + nat (fst w) + nat (snd w)) sh
                      (replicate (length sh) (nbpml, nbpml))"
    by auto
  have sb: "shape b = map (\<lambda>n. n + 2 * nat nbpml) sh"
    unfolding sb0 by (intro nth_equalityI) simp_all
  have ax: "\<forall>i\<in>set [0..<length sh]. i < length (shape b) \<and> i < length spacing \<and> spacing ! i \<noteq> 0"
    using sp by (auto simp: sb list_all_length)
  obtain c where c: "foldM (\<lambda>i. foldM (damp_layer nbpml spacing mask' i) (map int [0..<nat nbpml]))
        [0..<length sh] b = Inr c" and sc: "shape c = shape b"
    using foldM_axes_ok [OF ax] by blast
  have "\<exists>d. initialize_function damp c 0 = Inr (damp\<lparr>data_with_halo := d\<rparr>) \<and>
             shape d = shape (data_with_halo damp)"
  proof (rule initialize_function_ok)
    show "length (size_halo damp) = length (shape c)"
      by (simp add: damp(2) sc sb)
    show "(0::int) \<le> 0" by simp
    show "list_all (\<lambda>n. 0 < n) (shape c)"
      using pos by (simp add: sc sb list_all_iff)
    show "shape (data_with_halo damp)
            = map2 (\<lambda>n h. n + nat (0 + int (fst h)) + nat (0 + int (snd h))) (shape c)
                (size_halo damp)"
      unfolding damp sc sb by (intro nth_equalityI) simp_all
  qed
  then obtain d where d: "initialize_function damp c 0 = Inr (damp\<lparr>data_with_halo := d\<rparr>)"
    by blast
  have asrt: "list_all (\<lambda>i. i = hd (size_halo damp)) (size_halo damp)"
    by (cases "length sh") (simp_all add: damp(2) list_all_iff)
  show ?thesis
    unfolding initialize_damp_def Let_def damp(1) phy d0
    by (intro exI [of _ d]) (simp add: gs b asrt c d)
qed

lemma grid_spacing_eq:
  assumes "grid_shape g = map (\<lambda>n. int n + 2 * nbpml) sh"
    and "grid_extent g = map2 (*) spacing (map (\<lambda>n. real_of_int (n - 1)) (grid_shape g))"
    and "length spacing = length sh"
    and "list_all (\<lambda>n. int n + 2 * nbpml \<noteq> 1) sh"
  shows "grid_spacing g = Inr spacing"
proof -
  have no1: "\<not> list_ex (\<lambda>n. n = 1) (grid_shape g)"
    using assms(4) by (auto simp: assms(1) list_ex_iff list_all_iff)
  have "map2 (\<lambda>e n. e / real_of_int (n - 1)) (grid_extent g) (grid_shape g) = spacing"
  proof (rule nth_equalityI)
    show "length (map2 (\<lambda>e n. e / real_of_int (n - 1)) (grid_extent g) (grid_shape g))
            = length spacing"
      by (simp add: assms(1,2,3))
    fix i assume "i < length (map2 (\<lambda>e n. e / real_of_int (n - 1)) (grid_extent g) (grid_shape g))"
    then have i: "i < length sh"
      by (simp add: assms(1,2,3))
    then have "int (sh ! i) + 2 * nbpml \<noteq> 1"
      using assms(4) by (simp add: list_all_length)
    then show "map2 (\<lambda>e n. e / real_of_int (n - 1)) (grid_extent g) (grid_shape g) ! i
                 = spacing ! i"
      using i by (simp add: assms(1,2,3))
  qed
  then show ?thesis
    using no1 by (simp add: grid_spacing_def)
qed

lemma slowness_ok:
  "list_all (\<lambda>v. v \<noteq> 0) (flat a) \<Longrightarrow> slowness a = Inr (np_map (\<lambda>v. 1 / (v * v)) a)"
  by (auto simp: slowness_def list_ex_iff list_all_iff)

lemma shape_np_map [simp]: "shape (np_map f a) = shape a"
  by (simp add: np_map_def)

lemma update_m_array_ok:
  assumes so: "0 \<le> space_order" and nb: "0 \<le> nbpml"
    and gs: "grid_shape g = map (\<lambda>n. int n + 2 * nbpml) (shape a)"
    and pos: "list_all (\<lambda>n. 0 < n) (shape a)"
    and nz: "list_all (\<lambda>v. v \<noteq> 0) (flat a)"
  shows "\<exists>f f'. new_Function g space_order = Inr f \<and>
           update_m set_data (OnGrid f) nbpml (Array a) = Inr (OnGrid f')"
proof -
  let ?f = "\<lparr>fn_grid = g,
             size_halo = replicate (length (grid_shape g)) (nat space_order, nat space_order),
             data_with_halo
               = const_array (map (\<lambda>n. nat (n + 2 * space_order)) (grid_shape g)) 0\<rparr>"
  have nn: "list_all (\<lambda>n. 0 \<le> n) (grid_shape g)"
    unfolding gs using nb by (simp add: list_all_iff)
  have nf: "new_Function g space_order = Inr ?f"
    using so nn by (rule new_Function_ok)
  have "\<exists>d. initialize_function ?f (np_map (\<lambda>v. 1 / (v * v)) a) nbpml
               = Inr (?f\<lparr>data_with_halo := d\<rparr>) \<and>
             shape d = shape (data_with_halo ?f)"
  proof (rule initialize_function_ok)
    show "length (size_halo ?f) = length (shape (np_map (\<lambda>v. 1 / (v * v)) a))"
      by (simp add: gs)
    show "0 \<le> nbpml" by (rule nb)
    show "list_all (\<lambda>n. 0 < n) (shape (np_map (\<lambda>v. 1 / (v * v)) a))"
      using pos by simp
    show "shape (data_with_halo ?f)
               = map2 (\<lambda>n h. n + nat (nbpml + int (fst h)) + nat (nbpml + int (snd h)))
                   (shape (np_map (\<lambda>v. 1 / (v * v)) a)) (size_halo ?f)"
      using so nb unfolding gs
      by (intro nth_equalityI) (simp_all add: nat_add_distrib)
  qed
  then obtain d where "initialize_function ?f (np_map (\<lambda>v. 1 / (v * v)) a) nbpml
               = Inr (?f\<lparr>data_with_halo := d\<rparr>)"
    by blast
  then have "update_m set_data (OnGrid ?f) nbpml (Array a)
      = Inr (OnGrid (?f\<lparr>data_with_halo := d\<rparr>))"
    by (simp add: update_m_def slowness_ok [OF nz])
  with nf show ?thesis by blast
qed

lemma init_epsilon_scalar_ok:
  assumes "eps = None \<or> (\<exists>e. eps = Some (Number e) \<and> 0 \<le> 1 + 2 * e)"
  shows "\<exists>ef sc. init_epsilon g space_order nbpml eps = Inr (ef, sc)"
  using assms by (auto simp: init_epsilon_def np_sqrt_def)

lemma Model_init_ok:
  assumes vp: "arg_vp args = Array a" and shp: "arg_shape args = map int (shape a)"
    and pos: "list_all (\<lambda>n. 0 < n) (shape a)"
    and nz: "list_all (\<lambda>v. v \<noteq> 0) (flat a)"
    and sp: "length (arg_spacing args) = length (shape a)"
      "list_all (\<lambda>s. s \<noteq> 0) (arg_spacing args)"
    and nb: "0 \<le> arg_nbpml args" and so: "0 \<le> arg_space_order args"
    and deg: "list_all (\<lambda>n. int n + 2 * arg_nbpml args \<noteq> 1) (shape a)"
    and rho: "arg_rho args = Number r" and dm: "arg_dm args = None"
    and eps: "arg_epsilon args = None \<or>
              (\<exists>e. arg_epsilon args = Some (Number e) \<and> 0 \<le> 1 + 2 * e)"
    and rest: "arg_delta args = None" "arg_theta args = None" "arg_phi args = None"
  shows "\<exists>M. Model_init set_data args = Inr M"
proof -
  define nbpml where "nbpml = arg_nbpml args"
  define shape_pml where "shape_pml = map (\<lambda>n. n + 2 * nbpml) (arg_shape args)"
  define extent where
    "extent = map2 (*) (arg_spacing args) (map (\<lambda>n. real_of_int (n - 1)) shape_pml)"
  define grid where "grid = \<lparr>grid_extent = extent, grid_shape = shape_pml,
      grid_origin = map2 (\<lambda>o_axis s. o_axis - s * real_of_int nbpml) (arg_origin args)
                      (arg_spacing args),
      grid_phydomain = nbpml\<rparr>"
  have gs: "grid_shape grid = map (\<lambda>n. int n + 2 * nbpml) (shape a)"
    by (simp add: grid_def shape_pml_def shp o_def)
  have ext: "np_multiply (arg_spacing args) (map (\<lambda>n. real_of_int (n - 1)) shape_pml)
               = Inr extent"
    by (simp add: np_multiply_def extent_def shape_pml_def shp sp)
  obtain f f' where f: "new_Function grid (arg_space_order args) = Inr f"
    and m: "update_m set_data (OnGrid f) nbpml (Array a) = Inr (OnGrid f')"
    using update_m_array_ok [OF so _ gs pos nz] nb unfolding nbpml_def by blast
  have nn: "list_all (\<lambda>n. 0 \<le> n) (grid_shape grid)"
    unfolding gs using nb by (simp add: list_all_iff nbpml_def)
  define damp0 where "damp0 = \<lparr>fn_grid = grid,
      size_halo = replicate (length (grid_shape grid)) (Suc 0, Suc 0),
      data_with_halo = const_array (map (\<lambda>n. nat (n + 2)) (grid_shape grid)) 0\<rparr>"
  have d0: "new_Function grid 1 = Inr damp0"
    using new_Function_ok [of 1 grid] nn by (simp add: damp0_def)
  have gsp: "grid_spacing grid = Inr (arg_spacing args)"
    using gs _ sp(1) deg unfolding nbpml_def [symmetric]
    by (rule grid_spacing_eq) (simp add: grid_def extent_def)
  have "\<exists>d. initialize_damp damp0 nbpml (arg_spacing args) True
               = Inr (damp0\<lparr>data_with_halo := d\<rparr>)"
  proof (rule initialize_damp_ok [OF gs _ _ pos])
    show "grid_phydomain grid = nbpml" by (simp add: grid_def)
    show "0 \<le> nbpml" using nb by (simp add: nbpml_def)
    show "fn_grid damp0 = grid" by (simp add: damp0_def)
    show "size_halo damp0 = replicate (length (shape a)) (1, 1)"
      by (simp add: damp0_def gs)
    show "shape (data_with_halo damp0) = map (\<lambda>n. n + 2 * nat nbpml + 2 * 1) (shape a)"
      using nb unfolding damp0_def gs nbpml_def
      by (intro nth_equalityI) (simp_all add: nat_add_distrib)
    show "length (arg_spacing args) = length (shape a)" by (rule sp(1))
    show "list_all (\<lambda>s. s \<noteq> 0) (arg_spacing args)" by (rule sp(2))
  qed
  then obtain damp where damp: "initialize_damp damp0 nbpml (arg_spacing args) True = Inr damp"
    by blast
  obtain ef sc where e: "init_epsilon grid (arg_space_order args) nbpml (arg_epsilon args)
      = Inr (ef, sc)"
    using init_epsilon_scalar_ok [OF eps] by blast
  show ?thesis
    unfolding Model_init_def Let_def nbpml_def [symmetric] shape_pml_def [symmetric] ext
      bind_result_Inr grid_def [symmetric]
    by (simp add: vp f m rho d0 gsp damp dm e rest init_delta_def
        init_angle_def)
qed

lemma update_m_Number: "update_m set_data (Scalar x) nbpml (Number v) \<noteq> Inr m"
  by (simp add: update_m_def)

lemma Model_init_fields:
  assumes "Model_init set_data args = Inr M"
  shows "self_shape M = arg_shape args"
    and "self_nbpml M = arg_nbpml args"
    and "self_vp M = arg_vp args"
    and "grid_shape (self_grid M) = map (\<lambda>n. n + 2 * arg_nbpml args) (arg_shape args)"
    and "grid_origin (self_grid M)
           = map2 (\<lambda>o_axis s. o_axis - s * real_of_int (arg_nbpml args))
               (arg_origin args) (arg_spacing args)"
    and "np_multiply (arg_spacing args)
           (map (\<lambda>n. real_of_int (n - 1)) (grid_shape (self_grid M)))
         = Inr (grid_extent (self_grid M))"
    and "\<exists>ef. init_epsilon (self_grid M) (arg_space_order args) (arg_nbpml args)
                 (arg_epsilon args) = Inr (ef, self_scale M)"
    and "\<exists>sp. grid_spacing (self_grid M) = Inr sp"
  using assms unfolding Model_init_def Let_def
  by (elim bind_result_InrE; auto split: prod.splits)+

lemma Model_init_vp_array:
  assumes "Model_init set_data args = Inr M"
  shows "\<exists>a. arg_vp args = Array a"
proof (cases "arg_vp args")
  case (Number v)
  from assms show ?thesis
    unfolding Model_init_def Let_def
    by (elim bind_result_InrE) (auto simp: Number update_m_Number split: if_splits)
next
  case (Array a)
  then show ?thesis by simp
qed

lemma example_args_ok:
  assumes "eps = None \<or> (\<exists>e. eps = Some (Number e) \<and> 0 \<le> 1 + 2 * e)"
  shows "\<exists>M. Model_init set_data (example_args\<lparr>arg_epsilon := eps\<rparr>) = Inr M"
proof (rule Model_init_ok [where a = "const_array [101, 101] 2" and r = 1])
  show "arg_epsilon (example_args\<lparr>arg_epsilon := eps\<rparr>) = None \<or>
        (\<exists>e. arg_epsilon (example_args\<lparr>arg_epsilon := eps\<rparr>) = Some (Number e) \<and> 0 \<le> 1 + 2 * e)"
    using assms by simp
qed (simp_all add: example_args_def const_array_def list_all_iff)



text \<open>
  Claim C6. With a constant velocity the constructor stores the float \<^verbatim>\<open>1/vp**2\<close> in
  \<^verbatim>\<open>self.m\<close> and then runs the setter of \<^verbatim>\<open>vp\<close>, which assigns to \<^verbatim>\<open>self.m.data\<close>:
  the construction ends in AttributeError instead of a model with a scalar slowness.
  Lemma \<open>constant_velocity_never_constructs\<close> says so for every constant velocity, and
  \<open>vp_setter_scalar_fails\<close> for the setter on a scalar slowness. The array half of the
  claim holds (lemma \<open>update_m_array_ok\<close>).
\<close>

theorem constant_velocity_fails:
  "Model_init set_data (example_args\<lparr>arg_vp := Number 2\<rparr>) = Inl AttributeError"
  by (simp add: Model_init_def example_args_def np_multiply_def update_m_def)

text \<open>
  The same construction with a setter that refuses every assignment.
\<close>

theorem constant_velocity_fails_witness:
  "Model_init no_data_setter (example_args\<lparr>arg_vp := Number 2\<rparr>) = Inl AttributeError"
  by (rule constant_velocity_fails)

lemma constant_velocity_never_constructs:
  "arg_vp args = Number v \<Longrightarrow> \<not> succeeds (Model_init set_data args)"
  using Model_init_vp_array [of set_data args]
  by (cases "Model_init set_data args") auto

lemma vp_setter_scalar_fails:
  "self_m M = Scalar x \<Longrightarrow> v \<noteq> 0 \<Longrightarrow> vp_setter set_data M (Number v) = Inl AttributeError"
  by (simp add: vp_setter_def update_m_def)

section \<open>The critical time step\<close>

lemma grid_spacing_cancel:
  assumes ext: "np_multiply spacing (map (\<lambda>n. real_of_int (n - 1)) (grid_shape g))
                  = Inr (grid_extent g)"
    and len: "length spacing = length (grid_shape g)"
    and sp: "grid_spacing g = Inr sp"
  shows "sp = spacing"
proof -
  have e: "grid_extent g = map2 (*) spacing (map (\<lambda>n. real_of_int (n - 1)) (grid_shape g))"
    using ext len by (simp add: np_multiply_def)
  have no1: "\<not> list_ex (\<lambda>n. n = 1) (grid_shape g)"
    and s: "sp = map2 (\<lambda>e n. e / real_of_int (n - 1)) (grid_extent g) (grid_shape g)"
    using sp by (auto simp: grid_spacing_def split: if_splits)
  show ?thesis
  proof (rule nth_equalityI)
    show "length sp = length spacing"
      by (simp add: s e len)
    fix i assume "i < length sp"
    then have i: "i < length (grid_shape g)"
      by (simp add: s e len)
    have "grid_shape g ! i \<noteq> 1"
      using no1 nth_mem [OF i] by (auto simp: list_ex_iff)
    then show "sp ! i = spacing ! i"
      using i len by (simp add: s e)
  qed
qed

lemma scale_positive:
  assumes "init_epsilon g space_order nbpml eps = Inr (ef, sc)"
    and "\<forall>e. eps = Some (Number e) \<longrightarrow> 0 < 1 + 2 * e"
  shows "0 < sc" and "eps = None \<longrightarrow> sc = 1"
    and "\<forall>e. eps = Some (Number e) \<longrightarrow> sc = sqrt (1 + 2 * e)"
  using assms
  by (auto simp: init_epsilon_def np_sqrt_def bind_result_eq_Inr
      split: option.splits param.splits if_splits)

lemma Min_positive:
  fixes xs :: "real list"
  shows "xs \<noteq> [] \<Longrightarrow> list_all (\<lambda>s. 0 < s) xs \<Longrightarrow> 0 < Min (set xs)"
  by (simp add: list_all_iff)

text \<open>
  The array branch of the constructor sets \<^verbatim>\<open>scale\<close> only when the largest entry of
  \<^verbatim>\<open>1 + 2 * epsilon\<close> is positive, and leaves it at 1 otherwise: there \<^verbatim>\<open>scale\<close> is
  always positive. The branch for a constant \<^verbatim>\<open>epsilon\<close> has no such guard.
\<close>

lemma array_epsilon_scale_positive:
  "init_epsilon g space_order nbpml (Some (Array e)) = Inr (ef, sc) \<Longrightarrow> 0 < sc"
  by (rule scale_positive(1) [of g space_order nbpml "Some (Array e)" ef sc]) simp_all

text \<open>
  In exact arithmetic, that is with the identity for the cast, and with a positive
  \<^verbatim>\<open>scale\<close>, the step is \<open>\<lfloor>1000 * dt\<rfloor> / 1000\<close> for
  \<open>dt = coeff * min spacing / (scale * max velocity)\<close>, and at most \<open>dt\<close>. The lemma says
  nothing about a cast that rounds.
\<close>

lemma critical_dt_exact:
  assumes init: "Model_init set_data args = Inr M"
    and len: "length (arg_spacing args) = length (arg_shape args)"
    and ne: "arg_spacing args \<noteq> []" and pos: "list_all (\<lambda>s. 0 < s) (arg_spacing args)"
    and vp: "arg_vp args = Array a" and fa: "flat a \<noteq> []" and vmax: "0 < Max (set (flat a))"
    and eps: "\<forall>e. arg_epsilon args = Some (Number e) \<longrightarrow> 0 < 1 + 2 * e"
    and coeff: "coeff = (if length (arg_shape args) = 3 then 0.38 else 0.42)"
    and dt: "dt = coeff * Min (set (arg_spacing args)) / (self_scale M * Max (set (flat a)))"
    and cast: "\<forall>x. dtype x = x"
  shows "critical_dt dtype M = Inr (real_of_int \<lfloor>1000 * dt\<rfloor> / 1000)"
    and "real_of_int \<lfloor>1000 * dt\<rfloor> / 1000 \<le> dt"
proof -
  note f = Model_init_fields [OF init]
  obtain ef where ef: "init_epsilon (self_grid M) (arg_space_order args) (arg_nbpml args)
      (arg_epsilon args) = Inr (ef, self_scale M)"
    using f(7) by blast
  note sc = scale_positive [OF ef eps]
  obtain sp where sp: "grid_spacing (self_grid M) = Inr sp"
    using f(8) by blast
  have "length (arg_spacing args) = length (grid_shape (self_grid M))"
    by (simp add: f(4) len)
  then have sp_eq: "sp = arg_spacing args"
    using grid_spacing_cancel [OF f(6) _ sp] by simp
  have h0: "0 < Min (set (arg_spacing args))"
    using ne pos by (rule Min_positive)
  have c0: "0 < coeff"
    by (simp add: coeff)
  have den: "0 < self_scale M * Max (set (flat a))"
    using sc(1) vmax by simp
  have dt0: "0 \<le> dt"
    unfolding dt using c0 h0 den by simp
  have "critical_dt dtype M = Inr (0.001 * real_of_int (py_int (1000 * dt)))"
    using sc(1) vmax
    by (simp add: critical_dt_def Let_def sp sp_eq np_min_def ne f(1,3) vp np_max_def fa
        coeff dt cast)
  also have "py_int (1000 * dt) = \<lfloor>1000 * dt\<rfloor>"
    using dt0 by (simp add: py_int_nonneg)
  finally show "critical_dt dtype M = Inr (real_of_int \<lfloor>1000 * dt\<rfloor> / 1000)"
    by simp
  have "real_of_int \<lfloor>1000 * dt\<rfloor> \<le> 1000 * dt"
    by (rule of_int_floor_le)
  then show "real_of_int \<lfloor>1000 * dt\<rfloor> / 1000 \<le> dt"
    by linarith
qed

lemma example_args_fields:
  "arg_shape (example_args\<lparr>arg_epsilon := eps\<rparr>) = [101, 101]"
  "arg_spacing (example_args\<lparr>arg_epsilon := eps\<rparr>) = [10, 10]"
  "arg_vp (example_args\<lparr>arg_epsilon := eps\<rparr>) = Array (const_array [101, 101] 2)"
  "arg_epsilon (example_args\<lparr>arg_epsilon := eps\<rparr>) = eps"
  by (simp_all add: example_args_def)

lemma example_args_values:
  "flat (const_array [101, 101] (2::real)) \<noteq> []"
  "Max (set (flat (const_array [101, 101] (2::real)))) = 2"
  "Min (set [10, 10 :: real]) = 10"
  by (simp_all add: example_args_def const_array_def)

text \<open>
  The example without \<^verbatim>\<open>epsilon\<close>, in exact arithmetic: \<open>dt = 0.42 * 10 / (1 * 2) = 2.1\<close>.
\<close>

lemma critical_dt_exact_example:
  "bind_result (Model_init no_data_setter example_args) (critical_dt (\<lambda>x. x)) = Inr (21 / 10)"
proof -
  obtain M where M: "Model_init no_data_setter example_args = Inr M"
    using example_args_ok [of None no_data_setter] by (auto simp: example_args_def)
  have e: "example_args\<lparr>arg_epsilon := None\<rparr> = example_args"
    by (simp add: example_args_def)
  note f = example_args_fields [of None, unfolded e] example_args_values
  note g = Model_init_fields [OF M]
  obtain ef where ef: "init_epsilon (self_grid M) (arg_space_order example_args)
      (arg_nbpml example_args) (arg_epsilon example_args) = Inr (ef, self_scale M)"
    using g(7) by blast
  have sc: "self_scale M = 1"
    using scale_positive(2) [OF ef] by (simp add: f)
  have "critical_dt (\<lambda>x. x) M
          = Inr (real_of_int \<lfloor>1000 * (42 / 100 * 10 / (self_scale M * 2))\<rfloor> / 1000)"
    by (rule critical_dt_exact(1) [OF M, where a = "const_array [101, 101] 2"
          and coeff = "42 / 100"]) (simp_all add: f)
  then have "critical_dt (\<lambda>x. x) M = Inr (21 / 10)"
    by (simp add: sc)
  then show ?thesis
    by (simp add: M)
qed

text \<open>
  Claim C2. A constant \<^verbatim>\<open>epsilon\<close> of \<open>-1/2\<close> gives a model with positive spacing and
  positive velocity whose \<^verbatim>\<open>scale\<close> is \<open>sqrt 0 = 0\<close>: the branch of the constructor
  for a constant \<^verbatim>\<open>epsilon\<close> takes the square root without asking that \<^verbatim>\<open>epsilon\<close> be
  positive, as the array branch does. The quotient in \<^verbatim>\<open>critical_dt\<close> is then \<^verbatim>\<open>inf\<close>,
  and the property raises OverflowError instead of returning a step, whatever the cast
  is. With the \<^verbatim>\<open>scale\<close> of 1 that the guard would leave, the step of this model is the
  one of lemma \<open>critical_dt_exact_example\<close>.
\<close>

theorem critical_dt_zero_scale:
  "succeeds (Model_init set_data (example_args\<lparr>arg_epsilon := Some (Number (- 1 / 2))\<rparr>)) \<and>
   list_all (\<lambda>s. 0 < s) (arg_spacing (example_args\<lparr>arg_epsilon := Some (Number (- 1 / 2))\<rparr>)) \<and>
   0 < Max (set (flat (const_array [101, 101] (2::real)))) \<and>
   self_scale (projr (Model_init set_data
      (example_args\<lparr>arg_epsilon := Some (Number (- 1 / 2))\<rparr>))) = 0 \<and>
   bind_result (Model_init set_data (example_args\<lparr>arg_epsilon := Some (Number (- 1 / 2))\<rparr>))
     (critical_dt dtype) = Inl OverflowError"
proof -
  define args where "args = example_args\<lparr>arg_epsilon := Some (Number (- 1 / 2))\<rparr>"
  note a = example_args_fields [of "Some (Number (- 1 / 2))", folded args_def]
    example_args_values
  obtain M where M: "Model_init set_data args = Inr M"
    using example_args_ok [of "Some (Number (- 1 / 2))" set_data]
    by (auto simp: args_def)
  note f = Model_init_fields [OF M]
  obtain ef where "init_epsilon (self_grid M) (arg_space_order args) (arg_nbpml args)
      (arg_epsilon args) = Inr (ef, self_scale M)"
    using f(7) by blast
  then have sc: "self_scale M = 0"
    by (simp add: a init_epsilon_def np_sqrt_def)
  obtain sp where sp: "grid_spacing (self_grid M) = Inr sp"
    using f(8) by blast
  have "sp = arg_spacing args"
    using f(6) _ sp by (rule grid_spacing_cancel) (simp add: f(4) a)
  then have sp_eq: "sp = [10, 10]"
    by (simp add: a)
  have "critical_dt dtype M = Inl OverflowError"
    by (simp add: critical_dt_def Let_def sp sp_eq np_min_def f(1,3) a np_max_def sc)
  then show ?thesis
    unfolding args_def [symmetric] by (simp add: M sc a)
qed

text \<open>
  The same model with a setter that refuses every assignment and the identity for the
  cast.
\<close>

theorem critical_dt_zero_scale_witness:
  "succeeds (Model_init no_data_setter
      (example_args\<lparr>arg_epsilon := Some (Number (- 1 / 2))\<rparr>)) \<and>
   self_scale (projr (Model_init no_data_setter
      (example_args\<lparr>arg_epsilon := Some (Number (- 1 / 2))\<rparr>))) = 0 \<and>
   bind_result (Model_init no_data_setter
      (example_args\<lparr>arg_epsilon := Some (Number (- 1 / 2))\<rparr>))
     (critical_dt (\<lambda>x. x)) = Inl OverflowError"
  using critical_dt_zero_scale [of no_data_setter "\<lambda>x. x"] by blast

end
